theory Spec2Isabelle
  imports Main "HOL-Library.AList" "HOL-Library.Sublist" "HOL-Library.Char_ord" "HOL-Library.List_Lexorder"
begin

section \<open>Python values, dictionaries and the JSON files\<close>

text \<open>
  The services keep every collection in a JSON file and work on Python dictionaries.
  A value of a dictionary is modelled by \<open>json\<close>: null, a boolean, an integer or a string
  (floating-point numbers are not represented; the one float the services compute, the
  defect density, is supplied by a parameter). A dictionary is an association list in
  insertion order; \<open>dict_set\<close> overwrites in place or appends, as Python does.
  A string is a list of characters, each a code point below 256.
\<close>

datatype json = JNull | JBool bool | JInt int | JStr string

type_synonym pydict = "(string \<times> json) list"

datatype py_error = TypeError | AttributeError | ValueError | KeyError

text \<open>\<open>d.get(k)\<close>: the value, or \<open>None\<close>.\<close>

definition dict_get :: "pydict \<Rightarrow> string \<Rightarrow> json" where
  "dict_get d k = (case map_of d k of None \<Rightarrow> JNull | Some v \<Rightarrow> v)"

text \<open>\<open>d.get(k, default)\<close>.\<close>

definition dict_get_default :: "pydict \<Rightarrow> string \<Rightarrow> json \<Rightarrow> json" where
  "dict_get_default d k v = (case map_of d k of None \<Rightarrow> v | Some x \<Rightarrow> x)"

text \<open>\<open>k in d\<close>.\<close>

definition dict_has :: "(string \<times> 'v) list \<Rightarrow> string \<Rightarrow> bool" where
  "dict_has d k = (k \<in> set (map fst d))"

text \<open>\<open>d[k] = v\<close>.\<close>

definition dict_set :: "string \<Rightarrow> 'v \<Rightarrow> (string \<times> 'v) list \<Rightarrow> (string \<times> 'v) list" where
  "dict_set k v d = AList.update k v d"

text \<open>\<open>d.pop(k, None)\<close>, and \<open>del d[k]\<close> for a key that is present.\<close>

definition dict_pop :: "string \<Rightarrow> (string \<times> 'v) list \<Rightarrow> (string \<times> 'v) list" where
  "dict_pop k d = AList.delete k d"

text \<open>\<open>d.update(other)\<close>: the entries of \<open>other\<close> stored one by one, in its order.\<close>

definition dict_update :: "pydict \<Rightarrow> pydict \<Rightarrow> pydict" where
  "dict_update d other = fold (\<lambda>(k, v) acc. dict_set k v acc) other d"

text \<open>Python's truth value of a scalar.\<close>

fun truthy :: "json \<Rightarrow> bool" where
  "truthy JNull = False"
| "truthy (JBool b) = b"
| "truthy (JInt n) = (n \<noteq> 0)"
| "truthy (JStr s) = (s \<noteq> [])"

text \<open>Booleans are integers in Python: \<open>True == 1\<close>, \<open>True + True == 2\<close>.\<close>

fun num_val :: "json \<Rightarrow> int option" where
  "num_val (JBool b) = Some (if b then 1 else 0)"
| "num_val (JInt n) = Some n"
| "num_val _ = None"

text \<open>\<open>a == b\<close> on scalars.\<close>

definition py_eq :: "json \<Rightarrow> json \<Rightarrow> bool" where
  "py_eq a b = (case (num_val a, num_val b) of
      (Some x, Some y) \<Rightarrow> x = y
    | (None, None) \<Rightarrow> a = b
    | _ \<Rightarrow> False)"

text \<open>Decimal notation of an integer, for \<open>str(n)\<close> and f-strings.\<close>

definition digit_char :: "nat \<Rightarrow> char" where
  "digit_char d = ''0123456789'' ! (d mod 10)"

fun string_of_nat :: "nat \<Rightarrow> string" where
  "string_of_nat n =
     (if n < 10 then [digit_char n] else string_of_nat (n div 10) @ [digit_char (n mod 10)])"

declare string_of_nat.simps [simp del]

definition string_of_int :: "int \<Rightarrow> string" where
  "string_of_int i = (if i < 0 then CHR ''-'' # string_of_nat (nat (- i)) else string_of_nat (nat i))"

text \<open>\<open>str(v)\<close> of a scalar, as an f-string prints it.\<close>

fun py_str :: "json \<Rightarrow> string" where
  "py_str JNull = ''None''"
| "py_str (JBool b) = (if b then ''True'' else ''False'')"
| "py_str (JInt n) = string_of_int n"
| "py_str (JStr s) = s"

text \<open>
  The data directory. Each field is the content of one JSON file: a list of records, or
  (for the users) a dictionary from username to the user's record. A file that is absent
  or unreadable loads as the empty collection, so the model does not tell the two apart;
  \<open>users.json\<close> is taken to exist. \<open>writable\<close> says whether opening a file for writing
  succeeds: when it does not, a save returns \<open>False\<close> and the file keeps its content.
\<close>

record store =
  allocations_json :: "pydict list"
  uat_records_json :: "pydict list"
  quality_records_json :: "pydict list"
  users_json :: "(string \<times> pydict) list"
  pending_users_json :: "pydict list"
  trail_documents_json :: "pydict list"
  writable :: bool

section \<open>User service (services/user\_service.py)\<close>

definition load_users :: "store \<Rightarrow> (string \<times> pydict) list" where
  "load_users st = users_json st"

definition save_users :: "(string \<times> pydict) list \<Rightarrow> store \<Rightarrow> bool \<times> store" where
  "save_users users st =
     (if writable st then (True, st\<lparr>users_json := users\<rparr>) else (False, st))"

definition load_pending_users :: "store \<Rightarrow> pydict list" where
  "load_pending_users st = pending_users_json st"

definition save_pending_users :: "pydict list \<Rightarrow> store \<Rightarrow> bool \<times> store" where
  "save_pending_users pending st =
     (if writable st then (True, st\<lparr>pending_users_json := pending\<rparr>) else (False, st))"

text \<open>
  \<open>authenticate_user\<close>. The hash function (SHA-256 of the standard library) is the
  parameter \<open>hash_password\<close>. The result is the identity, or \<open>None\<close>.
\<close>

definition authenticate_user :: "(string \<Rightarrow> string) \<Rightarrow> string \<Rightarrow> string \<Rightarrow> store \<Rightarrow> pydict option" where
  "authenticate_user hash_password username password st =
     (let users = load_users st in
      case map_of users username of
        None \<Rightarrow> None
      | Some user \<Rightarrow>
          let hashed_input = hash_password password;
              stored_hash = dict_get_default user ''password'' (JStr '''')
          in if stored_hash \<noteq> JStr hashed_input then None
             else let is_active = dict_get_default user ''is_active'' (JBool True)
             in if \<not> truthy is_active then None
             else let status = dict_get_default user ''status'' (JStr ''active'')
             in if status \<noteq> JStr ''active'' then None
             else let user_copy = dict_pop ''password'' user;
                      user_copy = dict_set ''username'' (JStr username) user_copy;
                      user_copy = dict_set ''is_audit_reviewer''
                                    (dict_get_default user ''is_audit_reviewer'' (JBool False)) user_copy
                  in Some user_copy)"

text \<open>\<open>delete_user\<close>: the pair (success, message) and the data directory afterwards.\<close>

definition delete_user :: "string \<Rightarrow> store \<Rightarrow> (bool \<times> string) \<times> store" where
  "delete_user username st =
     (let users = load_users st in
      if \<not> dict_has users username then ((False, ''User not found''), st)
      else if username = ''superuser'' \<or> username = ''admin''
        then ((False, ''Cannot delete system admin accounts''), st)
      else
        let superusers = map fst (filter (\<lambda>(u, data). dict_get data ''role'' = JStr ''superuser'') users)
        in if length superusers = 1 \<and> username \<in> set superusers
             then ((False, ''Cannot delete the last superuser''), st)
           else
             let user_role = (case map_of users username of None \<Rightarrow> JNull | Some d \<Rightarrow> dict_get d ''role'');
                 users' = dict_pop username users;
                 (ok, st') = save_users users' st
             in if ok
                  then ((True, ''User '' @ [CHR 0x27] @ username @ [CHR 0x27] @ '' (role: ''
                                @ py_str user_role @ '') deleted successfully''), st')
                else ((False, ''Failed to delete user''), st'))"

text \<open>\<open>reject_pending_user\<close>.\<close>

definition reject_pending_user :: "string \<Rightarrow> store \<Rightarrow> (bool \<times> string) \<times> store" where
  "reject_pending_user username st =
     (let pending_users = load_pending_users st;
          pending_users = filter (\<lambda>u. dict_get u ''username'' \<noteq> JStr username) pending_users;
          (ok, st') = save_pending_users pending_users st
      in if ok then ((True, ''Registration for '' @ [CHR 0x27] @ username @ [CHR 0x27] @ '' rejected''), st')
         else ((False, ''Failed to reject user''), st'))"

section \<open>Allocation service (services/allocation\_service.py)\<close>

text \<open>
  The allocation service keeps its records in \<open>allocations.json\<close>, where entries whose
  \<open>record_type\<close> is \<open>uat\<close> may live beside them. The two timestamps that
  \<open>datetime.now()\<close> yields are parameters.
\<close>

definition load_all_data :: "store \<Rightarrow> pydict list" where
  "load_all_data st = allocations_json st"

definition load_allocations :: "store \<Rightarrow> pydict list" where
  "load_allocations st =
     filter (\<lambda>item. dict_get item ''record_type'' \<noteq> JStr ''uat'') (load_all_data st)"

definition save_all_data :: "pydict list \<Rightarrow> store \<Rightarrow> bool \<times> store" where
  "save_all_data data st =
     (if writable st then (True, st\<lparr>allocations_json := data\<rparr>) else (False, st))"

definition save_allocations :: "pydict list \<Rightarrow> store \<Rightarrow> bool \<times> store" where
  "save_allocations allocations st =
     (let all_data = load_all_data st;
          uat_records = filter (\<lambda>item. dict_get item ''record_type'' = JStr ''uat'') all_data;
          combined_data = uat_records @ allocations
      in save_all_data combined_data st)"

definition create_allocation_record ::
  "string \<Rightarrow> string \<Rightarrow> pydict \<Rightarrow> string \<Rightarrow> store \<Rightarrow> (bool \<times> string) \<times> store" where
  "create_allocation_record now_id now_stamp allocation_data username st =
     (let allocation_data = dict_set ''id'' (JStr now_id) allocation_data;
          allocation_data = dict_set ''created_by'' (JStr username) allocation_data;
          allocation_data = dict_set ''created_at'' (JStr now_stamp) allocation_data;
          allocation_data = dict_set ''record_type'' (JStr ''allocation'') allocation_data;
          allocations = load_allocations st;
          allocations = allocations @ [allocation_data];
          (ok, st') = save_allocations allocations st
      in if ok then ((True, ''Allocation created successfully''), st')
         else ((False, ''Failed to save allocation''), st'))"

text \<open>
  The loop of the update functions: the first element that satisfies \<open>p\<close> is replaced
  by its image under \<open>f\<close>; \<open>None\<close> when there is none (\<open>found\<close> stays false).
\<close>

fun update_first :: "('a \<Rightarrow> bool) \<Rightarrow> ('a \<Rightarrow> 'a) \<Rightarrow> 'a list \<Rightarrow> 'a list option" where
  "update_first p f [] = None"
| "update_first p f (x # xs) =
     (if p x then Some (f x # xs) else map_option ((#) x) (update_first p f xs))"

definition update_allocation_record ::
  "string \<Rightarrow> string \<Rightarrow> pydict \<Rightarrow> string \<Rightarrow> store \<Rightarrow> (bool \<times> string) \<times> store" where
  "update_allocation_record now_stamp allocation_id updated_data username st =
     (let allocations = load_allocations st in
      case update_first (\<lambda>allocation. dict_get allocation ''id'' = JStr allocation_id)
             (\<lambda>allocation. dict_set ''updated_at'' (JStr now_stamp)
                (dict_set ''updated_by'' (JStr username) (dict_update allocation updated_data)))
             allocations of
        None \<Rightarrow> ((False, ''Allocation not found''), st)
      | Some allocations \<Rightarrow>
          let (ok, st') = save_allocations allocations st
          in if ok then ((True, ''Allocation updated successfully''), st')
             else ((False, ''Failed to save allocation''), st'))"

definition delete_allocation_record :: "string \<Rightarrow> store \<Rightarrow> (bool \<times> string) \<times> store" where
  "delete_allocation_record allocation_id st =
     (let allocations = load_allocations st;
          original_count = length allocations;
          allocations = filter (\<lambda>a. dict_get a ''id'' \<noteq> JStr allocation_id) allocations
      in if length allocations = original_count then ((False, ''Allocation not found''), st)
         else let (ok, st') = save_allocations allocations st
              in if ok then ((True, ''Allocation deleted successfully''), st')
                 else ((False, ''Failed to delete allocation''), st'))"

section \<open>UAT service (services/uat\_service.py)\<close>

text \<open>The UAT service reads and writes its own file, \<open>uat_records.json\<close> (config.py).\<close>

definition load_uat_records :: "store \<Rightarrow> pydict list" where
  "load_uat_records st = uat_records_json st"

definition save_uat_records :: "pydict list \<Rightarrow> store \<Rightarrow> bool \<times> store" where
  "save_uat_records records st =
     (if writable st then (True, st\<lparr>uat_records_json := records\<rparr>) else (False, st))"

section \<open>Strings\<close>

text \<open>
  \<open>str.strip()\<close> and \<open>str.upper()\<close> on strings of code points below 256. The whitespace
  that \<open>strip\<close> removes is, in that range: tab, line feed, vertical tab, form feed,
  carriage return, the four separators 0x1C to 0x1F, the space, the next-line control
  0x85 and the no-break space 0xA0.
\<close>

definition is_space :: "char \<Rightarrow> bool" where
  "is_space c = (c \<in> set [CHR 0x09, CHR 0x0A, CHR 0x0B, CHR 0x0C, CHR 0x0D,
                           CHR 0x1C, CHR 0x1D, CHR 0x1E, CHR 0x1F, CHR 0x20,
                           CHR 0x85, CHR 0xA0])"

definition strip :: "string \<Rightarrow> string" where
  "strip s = rev (dropWhile is_space (rev (dropWhile is_space s)))"

text \<open>
  \<open>upper\<close> maps every character by itself, and not always to a code point below 256 or to
  a single one, so the result is a list of code points: the letters a to z and the
  letters 0xE0 to 0xFE (but not the division sign 0xF7) move down by 32, the micro sign
  0xB5 becomes the Greek capital mu, the sharp s 0xDF becomes SS, and 0xFF becomes the
  capital Y with diaeresis; every other character stays.
\<close>

definition upper_code :: "char \<Rightarrow> nat list" where
  "upper_code c =
     (let n = of_char c in
      if (97 \<le> n \<and> n \<le> 122) \<or> (224 \<le> n \<and> n \<le> 254 \<and> n \<noteq> 247) then [n - 32]
      else if n = 181 then [924]
      else if n = 223 then [83, 83]
      else if n = 255 then [376]
      else [n])"

definition upper :: "string \<Rightarrow> nat list" where
  "upper s = concat (map upper_code s)"

text \<open>
  \<open>str.title()\<close> on ASCII strings (the service applies it to the names of its fields):
  the ASCII letters and their two cases.
\<close>

definition lower_letters :: string where
  "lower_letters = ''abcdefghijklmnopqrstuvwxyz''"

definition upper_letters :: string where
  "upper_letters = ''ABCDEFGHIJKLMNOPQRSTUVWXYZ''"

definition to_upper :: "char \<Rightarrow> char" where
  "to_upper c = (case map_of (zip lower_letters upper_letters) c of None \<Rightarrow> c | Some u \<Rightarrow> u)"

definition to_lower :: "char \<Rightarrow> char" where
  "to_lower c = (case map_of (zip upper_letters lower_letters) c of None \<Rightarrow> c | Some l \<Rightarrow> l)"

definition is_letter :: "char \<Rightarrow> bool" where
  "is_letter c = (c \<in> set lower_letters \<or> c \<in> set upper_letters)"

text \<open>\<open>title\<close>: a letter that follows a letter is lowered, any other letter is raised.\<close>

fun title_from :: "bool \<Rightarrow> string \<Rightarrow> string" where
  "title_from after_letter [] = []"
| "title_from after_letter (c # cs) =
     (if is_letter c then (if after_letter then to_lower c else to_upper c) # title_from True cs
      else c # title_from False cs)"

definition title :: "string \<Rightarrow> string" where
  "title s = title_from False s"

text \<open>\<open>s.replace(old, new)\<close> for single characters.\<close>

definition replace_char :: "char \<Rightarrow> char \<Rightarrow> string \<Rightarrow> string" where
  "replace_char old new s = map (\<lambda>c. if c = old then new else c) s"

text \<open>The name of a value's type, as error messages print it.\<close>

fun type_name :: "json \<Rightarrow> string" where
  "type_name JNull = ''NoneType''"
| "type_name (JBool b) = ''bool''"
| "type_name (JInt n) = ''int''"
| "type_name (JStr s) = ''str''"

text \<open>
  Operations that can raise return the text of the exception (\<open>str(e)\<close>) on the left:
  \<open>v.strip()\<close> raises AttributeError on a value that is not a string, \<open>d[k]\<close> raises
  KeyError on a missing key.
\<close>

definition value_strip :: "json \<Rightarrow> string + json" where
  "value_strip v = (case v of
      JStr s \<Rightarrow> Inr (JStr (strip s))
    | _ \<Rightarrow> Inl ([CHR 0x27] @ type_name v @ [CHR 0x27] @ '' object has no attribute ''
                @ [CHR 0x27] @ ''strip'' @ [CHR 0x27]))"

definition dict_item :: "pydict \<Rightarrow> string \<Rightarrow> string + json" where
  "dict_item d k = (case map_of d k of
      None \<Rightarrow> Inl ([CHR 0x27] @ k @ [CHR 0x27])
    | Some v \<Rightarrow> Inr v)"

definition and_then :: "'e + 'a \<Rightarrow> ('a \<Rightarrow> 'e + 'b) \<Rightarrow> 'e + 'b" where
  "and_then r f = (case r of Inl e \<Rightarrow> Inl e | Inr v \<Rightarrow> f v)"

section \<open>UAT records: create and update (services/uat\_service.py)\<close>

definition required_fields :: "string list" where
  "required_fields = [''trial_id'', ''uat_round'', ''category'', ''planned_start_date'',
                      ''planned_end_date'', ''status'', ''result'']"

text \<open>The test that both functions make on the dates, before anything is written.\<close>

definition has_date_difference :: "pydict \<Rightarrow> bool" where
  "has_date_difference uat_data =
     (let planned_start = dict_get uat_data ''planned_start_date'';
          planned_end = dict_get uat_data ''planned_end_date'';
          actual_start = dict_get uat_data ''actual_start_date'';
          actual_end = dict_get uat_data ''actual_end_date''
      in (truthy actual_start \<and> \<not> py_eq actual_start planned_start)
         \<or> (truthy actual_end \<and> \<not> py_eq actual_end planned_end))"

definition date_reason_message :: string where
  "date_reason_message =
     ''Reason for date difference is required when actual dates differ from planned dates''"

text \<open>
  The fields that both functions compute from the request, in the order in which the
  dictionary display evaluates them; the first expression that raises ends the
  evaluation with the text of its exception.
\<close>

definition uat_field_values :: "pydict \<Rightarrow> string + pydict" where
  "uat_field_values uat_data =
     (let planned_start = dict_get uat_data ''planned_start_date'';
          planned_end = dict_get uat_data ''planned_end_date'';
          actual_start = dict_get uat_data ''actual_start_date'';
          actual_end = dict_get uat_data ''actual_end_date''
      in
      and_then (dict_item uat_data ''trial_id'') (\<lambda>v. and_then (value_strip v) (\<lambda>trial_id.
      and_then (dict_item uat_data ''uat_round'') (\<lambda>v. and_then (value_strip v) (\<lambda>uat_round.
      and_then (dict_item uat_data ''category'') (\<lambda>v. and_then (value_strip v) (\<lambda>category.
      and_then (if has_date_difference uat_data
                then value_strip (dict_get_default uat_data ''date_difference_reason'' (JStr ''''))
                else Inr JNull) (\<lambda>reason.
      and_then (dict_item uat_data ''status'') (\<lambda>status.
      and_then (dict_item uat_data ''result'') (\<lambda>result.
      and_then (value_strip (dict_get_default uat_data ''email_body'' (JStr ''''))) (\<lambda>email_body.
      Inr [(''trial_id'', trial_id),
           (''uat_round'', uat_round),
           (''category'', category),
           (''category_type'', dict_get_default uat_data ''category_type'' (JStr ''Build'')),
           (''planned_start_date'', planned_start),
           (''planned_end_date'', planned_end),
           (''actual_start_date'', if truthy actual_start then actual_start else JNull),
           (''actual_end_date'', if truthy actual_end then actual_end else JNull),
           (''date_difference_reason'', reason),
           (''status'', status),
           (''result'', result),
           (''email_body'', email_body)])))))))))))"

text \<open>
  \<open>create_uat_record\<close>. The three readings of the clock (for the id, \<open>created_at\<close> and
  \<open>updated_at\<close>) are parameters.
\<close>

definition create_uat_record ::
  "string \<Rightarrow> string \<Rightarrow> string \<Rightarrow> pydict \<Rightarrow> string \<Rightarrow> store \<Rightarrow> (bool \<times> string) \<times> store" where
  "create_uat_record now_id now_created now_updated uat_data username st =
     (case find (\<lambda>field. \<not> truthy (dict_get uat_data field)) required_fields of
        Some field \<Rightarrow>
          ((False, title (replace_char CHR ''_'' CHR '' '' field) @ '' is required''), st)
      | None \<Rightarrow>
          if has_date_difference uat_data
             \<and> \<not> truthy (dict_get uat_data ''date_difference_reason'')
          then ((False, date_reason_message), st)
          else
            let records = load_uat_records st in
            (case uat_field_values uat_data of
              Inl e \<Rightarrow> ((False, ''Error creating UAT record: '' @ e), st)
            | Inr field_values \<Rightarrow>
                let record = [(''id'', JStr now_id)] @ field_values
                       @ [(''created_by'', JStr username),
                          (''created_at'', JStr now_created),
                          (''updated_at'', JStr now_updated),
                          (''record_type'', JStr ''uat'')];
                    records = records @ [record];
                    (ok, st') = save_uat_records records st
                in if ok then ((True, ''UAT record created successfully''), st')
                   else ((False, ''Failed to save UAT record''), st')))"

text \<open>The first element that satisfies \<open>p\<close> replaced by its image; the list itself when there is none.\<close>

fun replace_first :: "('a \<Rightarrow> bool) \<Rightarrow> ('a \<Rightarrow> 'a) \<Rightarrow> 'a list \<Rightarrow> 'a list" where
  "replace_first p f [] = []"
| "replace_first p f (x # xs) = (if p x then f x # xs else x # replace_first p f xs)"

definition update_uat_record ::
  "string \<Rightarrow> string \<Rightarrow> pydict \<Rightarrow> string \<Rightarrow> store \<Rightarrow> (bool \<times> string) \<times> store" where
  "update_uat_record now_updated record_id uat_data username st =
     (let records = load_uat_records st in
      if has_date_difference uat_data
         \<and> \<not> truthy (dict_get uat_data ''date_difference_reason'')
      then ((False, date_reason_message), st)
      else if \<not> list_ex (\<lambda>record. dict_get record ''id'' = JStr record_id) records
      then ((False, ''UAT record not found''), st)
      else
        case uat_field_values uat_data of
          Inl e \<Rightarrow> ((False, ''Error updating UAT record: '' @ e), st)
        | Inr field_values \<Rightarrow>
            let changes = field_values @ [(''updated_by'', JStr username),
                                    (''updated_at'', JStr now_updated)];
                records = replace_first (\<lambda>record. dict_get record ''id'' = JStr record_id)
                            (\<lambda>record. dict_update record changes) records;
                (ok, st') = save_uat_records records st
            in if ok then ((True, ''UAT record updated successfully''), st')
               else ((False, ''Failed to save changes''), st'))"

section \<open>Trail documents: the duplicate check (services/audit\_service.py)\<close>

text \<open>The dictionary that the check returns about the document it found.\<close>

definition duplicate_info :: "pydict \<Rightarrow> pydict" where
  "duplicate_info doc =
     [(''id'', dict_get doc ''id''),
      (''trail'', dict_get_default doc ''trail'' (JStr ''Unknown'')),
      (''document_name'', dict_get_default doc ''document_name'' (JStr ''Unknown'')),
      (''created_by'', dict_get_default doc ''created_by'' (JStr ''Unknown'')),
      (''created_at'', dict_get_default doc ''created_at'' (JStr ''N/A'')),
      (''category'', dict_get_default doc ''category'' (JStr ''Unknown'')),
      (''uat_round'', dict_get_default doc ''uat_round'' (JStr ''N/A''))]"

text \<open>
  The loop over the documents. \<open>exclude_id\<close> is \<open>None\<close> or a string; the document with that
  id is skipped when the string is not empty. A \<open>tmf_vault_id\<close> that is not a string makes
  \<open>strip\<close> raise, and the exception leaves the function (on the left).
\<close>

fun duplicate_scan :: "nat list \<Rightarrow> string option \<Rightarrow> pydict list \<Rightarrow> string + (bool \<times> pydict)" where
  "duplicate_scan tmf_vault_id_upper exclude_id [] = Inr (False, [])"
| "duplicate_scan tmf_vault_id_upper exclude_id (doc # documents) =
     (if (case exclude_id of None \<Rightarrow> False | Some e \<Rightarrow> e \<noteq> [] \<and> dict_get doc ''id'' = JStr e)
      then duplicate_scan tmf_vault_id_upper exclude_id documents
      else case value_strip (dict_get_default doc ''tmf_vault_id'' (JStr '''')) of
             Inl e \<Rightarrow> Inl e
           | Inr v \<Rightarrow>
               if upper (py_str v) = tmf_vault_id_upper then Inr (True, duplicate_info doc)
               else duplicate_scan tmf_vault_id_upper exclude_id documents)"

definition check_duplicate_tmf_vault_id ::
  "string \<Rightarrow> string option \<Rightarrow> store \<Rightarrow> string + (bool \<times> pydict)" where
  "check_duplicate_tmf_vault_id tmf_vault_id exclude_id st =
     (if tmf_vault_id = [] \<or> strip tmf_vault_id = [] then Inr (False, [])
      else let documents = trail_documents_json st;
               tmf_vault_id_upper = upper (strip tmf_vault_id)
           in duplicate_scan tmf_vault_id_upper exclude_id documents)"

section \<open>Comparison and arithmetic of Python values\<close>

text \<open>
  \<open>a > b\<close>: numbers (booleans included) compare as integers, strings compare
  lexicographically, and any other pair raises TypeError.
\<close>

definition py_gt :: "json \<Rightarrow> json \<Rightarrow> py_error + bool" where
  "py_gt a b = (case (num_val a, num_val b) of
      (Some x, Some y) \<Rightarrow> Inr (y < x)
    | _ \<Rightarrow> (case (a, b) of (JStr s, JStr t) \<Rightarrow> Inr (t < s) | _ \<Rightarrow> Inl TypeError))"

text \<open>
  \<open>max(m, *xs)\<close> with \<open>m\<close> the first element: the running maximum is replaced by an
  element that is greater.
\<close>

fun py_max_from :: "json \<Rightarrow> json list \<Rightarrow> py_error + json" where
  "py_max_from m [] = Inr m"
| "py_max_from m (x # xs) =
     (case py_gt x m of Inl e \<Rightarrow> Inl e | Inr b \<Rightarrow> py_max_from (if b then x else m) xs)"

text \<open>\<open>v + 1\<close>.\<close>

definition py_add_one :: "json \<Rightarrow> py_error + int" where
  "py_add_one v = (case num_val v of None \<Rightarrow> Inl TypeError | Some n \<Rightarrow> Inr (n + 1))"

section \<open>Quality service: the requirement round (services/quality\_service.py)\<close>

definition load_records :: "store \<Rightarrow> pydict list" where
  "load_records st = quality_records_json st"

definition save_records :: "pydict list \<Rightarrow> store \<Rightarrow> bool \<times> store" where
  "save_records records st =
     (if writable st then (True, st\<lparr>quality_records_json := records\<rparr>) else (False, st))"

text \<open>
  \<open>get_requirement_round\<close>. The trial id and the requirement type are values (the
  service itself calls the function with what it finds in a record); \<open>wizard_records\<close>
  is a list, the default \<open>None\<close> behaving as the empty list. The result is the next round,
  or the exception raised by \<open>max\<close> or by the addition.
\<close>

definition get_requirement_round :: "json \<Rightarrow> json \<Rightarrow> pydict list \<Rightarrow> store \<Rightarrow> py_error + int" where
  "get_requirement_round trial_id requirement_type wizard_records st =
     (let all_records = load_records st;
          trial_records = filter (\<lambda>r. py_eq (dict_get r ''trial_id'') trial_id
                                      \<and> py_eq (dict_get r ''type_of_requirement'') requirement_type)
                            all_records;
          trial_records =
            (if wizard_records \<noteq> []
             then trial_records
                    @ filter (\<lambda>r. py_eq (dict_get r ''type_of_requirement'') requirement_type)
                        wizard_records
             else trial_records)
      in case map (\<lambda>r. dict_get_default r ''requirement_round'' (JInt 0)) trial_records of
           [] \<Rightarrow> Inr 1
         | m # rest \<Rightarrow> and_then (py_max_from m rest) py_add_one)"

section \<open>Notions used in the statements, and concrete data\<close>

text \<open>The test of \<open>delete_user\<close> for the role of an entry of the users dictionary.\<close>

definition has_superuser_role :: "string \<times> pydict \<Rightarrow> bool" where
  "has_superuser_role = (\<lambda>(u, data). dict_get data ''role'' = JStr ''superuser'')"

text \<open>The target is the one and only account whose role is \<open>superuser\<close>.\<close>

definition only_superuser :: "string \<Rightarrow> (string \<times> pydict) list \<Rightarrow> bool" where
  "only_superuser username users =
     (length (map fst (filter has_superuser_role users)) = 1
      \<and> username \<in> set (map fst (filter has_superuser_role users)))"

text \<open>Two user stores: with two accounts of role \<open>superuser\<close>, and with one.\<close>

definition users_example :: store where
  "users_example =
     \<lparr>allocations_json = [], uat_records_json = [], quality_records_json = [],
      users_json = [(''root'', [(''password'', JStr ''h1''), (''role'', JStr ''superuser'')]),
                    (''boss'', [(''password'', JStr ''h2''), (''role'', JStr ''superuser'')]),
                    (''amy'', [(''password'', JStr ''h3''), (''role'', JStr ''user'')])],
      pending_users_json = [], trail_documents_json = [], writable = True\<rparr>"

definition users_single :: store where
  "users_single =
     \<lparr>allocations_json = [], uat_records_json = [], quality_records_json = [],
      users_json = [(''root'', [(''password'', JStr ''h1''), (''role'', JStr ''superuser'')]),
                    (''amy'', [(''password'', JStr ''h3''), (''role'', JStr ''user'')])],
      pending_users_json = [], trail_documents_json = [], writable = True\<rparr>"

text \<open>A data directory with two pending registrations, for concrete evaluation.\<close>

definition pending_example :: store where
  "pending_example =
     \<lparr>allocations_json = [], uat_records_json = [], quality_records_json = [], users_json = [],
      pending_users_json = [[(''username'', JStr ''amy'')], [(''username'', JStr ''bob'')]],
      trail_documents_json = [], writable = True\<rparr>"

text \<open>The identity that \<open>authenticate_user\<close> returns for a stored record.\<close>

definition identity_of :: "string \<Rightarrow> pydict \<Rightarrow> pydict" where
  "identity_of username user =
     dict_set ''is_audit_reviewer'' (dict_get_default user ''is_audit_reviewer'' (JBool False))
       (dict_set ''username'' (JStr username) (dict_pop ''password'' user))"

text \<open>A stand-in for the hash function, and a user store for the authentication examples.\<close>

definition toy_hash :: "string \<Rightarrow> string" where
  "toy_hash p = CHR ''#'' # p"

definition auth_example :: store where
  "auth_example =
     \<lparr>allocations_json = [], uat_records_json = [], quality_records_json = [],
      users_json = [(''amy'', [(''password'', JStr ''#pw''), (''role'', JStr ''user'')]),
                    (''bob'', [(''password'', JStr ''#pw''), (''status'', JStr ''inactive'')])],
      pending_users_json = [], trail_documents_json = [], writable = True\<rparr>"

text \<open>An entry of the shared file is UAT-typed when its \<open>record_type\<close> is \<open>uat\<close>.\<close>

definition is_uat :: "pydict \<Rightarrow> bool" where
  "is_uat item = (dict_get item ''record_type'' = JStr ''uat'')"

text \<open>A shared file with three allocations and two UAT entries.\<close>

definition shared_example :: store where
  "shared_example =
     \<lparr>allocations_json =
        [[(''id'', JStr ''a1''), (''record_type'', JStr ''allocation'')],
         [(''id'', JStr ''u1''), (''record_type'', JStr ''uat'')],
         [(''id'', JStr ''a2''), (''record_type'', JStr ''allocation'')],
         [(''id'', JStr ''u2''), (''record_type'', JStr ''uat'')],
         [(''id'', JStr ''a3''), (''record_type'', JStr ''allocation'')]],
      uat_records_json = [], quality_records_json = [], users_json = [],
      pending_users_json = [], trail_documents_json = [], writable = True\<rparr>"

text \<open>A UAT request whose actual end date differs from the planned one, without and with a reason.\<close>

definition uat_request :: pydict where
  "uat_request =
     [(''trial_id'', JStr '' T1 ''), (''uat_round'', JStr ''1''), (''category'', JStr ''Build''),
      (''planned_start_date'', JStr ''2024-03-01''), (''planned_end_date'', JStr ''2024-03-10''),
      (''actual_start_date'', JStr ''2024-03-01''), (''actual_end_date'', JStr ''2024-03-12''),
      (''status'', JStr ''Completed''), (''result'', JStr ''Pass'')]"

definition uat_store :: store where
  "uat_store =
     \<lparr>allocations_json = [], uat_records_json = [[(''id'', JStr ''20240101000000'')]],
      quality_records_json = [], users_json = [], pending_users_json = [],
      trail_documents_json = [], writable = True\<rparr>"

definition uat_request_with_reason :: pydict where
  "uat_request_with_reason = uat_request @ [(''date_difference_reason'', JStr ''vendor delay'')]"

text \<open>
  For the duplicate check: the document that is left out, a document's id after trimming
  and raising to upper case, and the documents whose id is a string or missing.
\<close>

definition excluded :: "string option \<Rightarrow> pydict \<Rightarrow> bool" where
  "excluded exclude_id doc =
     (case exclude_id of None \<Rightarrow> False | Some e \<Rightarrow> e \<noteq> [] \<and> dict_get doc ''id'' = JStr e)"

definition tmf_key :: "pydict \<Rightarrow> nat list" where
  "tmf_key doc = (case dict_get_default doc ''tmf_vault_id'' (JStr '''') of
                    JStr s \<Rightarrow> upper (strip s) | _ \<Rightarrow> [])"

definition tmf_is_string :: "pydict \<Rightarrow> bool" where
  "tmf_is_string doc = (case dict_get_default doc ''tmf_vault_id'' (JStr '''') of
                          JStr s \<Rightarrow> True | _ \<Rightarrow> False)"

text \<open>
  The document at which the loop of the duplicate check stops: the first one, not
  excluded, whose \<open>tmf_vault_id\<close> is not a string or is the id looked for.
\<close>

definition first_stop :: "nat list \<Rightarrow> string option \<Rightarrow> pydict list \<Rightarrow> pydict option" where
  "first_stop target exclude_id documents =
     find (\<lambda>doc. \<not> excluded exclude_id doc \<and> (\<not> tmf_is_string doc \<or> tmf_key doc = target))
       documents"

text \<open>
  Stored trail documents: the second one has its id stored with spaces around it, the
  third one has letters beyond ASCII and a no-break space at its end. In the last store
  the only document has \<open>null\<close> for its id.
\<close>

definition trail_doc1 :: pydict where
  "trail_doc1 = [(''id'', JStr ''d1''), (''trail'', JStr ''T-100''),
                 (''document_name'', JStr ''Test Plan''), (''tmf_vault_id'', JStr ''ABC-123'')]"

definition trail_example :: store where
  "trail_example =
     \<lparr>allocations_json = [], uat_records_json = [], quality_records_json = [], users_json = [],
      pending_users_json = [],
      trail_documents_json =
        [trail_doc1,
         [(''id'', JStr ''d2''), (''trail'', JStr ''T-200''), (''tmf_vault_id'', JStr '' xyz-9 '')],
         [(''id'', JStr ''d3''), (''trail'', JStr ''T-300''), (''category'', JStr ''Build''),
          (''tmf_vault_id'',
           JStr [CHR ''C'', CHR ''A'', CHR ''F'', CHR 0xC9, CHR ''-'', CHR ''1'', CHR 0xA0])]],
      writable = True\<rparr>"

definition trail_null_example :: store where
  "trail_null_example =
     \<lparr>allocations_json = [], uat_records_json = [], quality_records_json = [], users_json = [],
      pending_users_json = [],
      trail_documents_json = [[(''id'', JStr ''d0''), (''tmf_vault_id'', JNull)]],
      writable = True\<rparr>"

text \<open>
  For the requirement round: the records that count for a trial and a type, and the
  round of a record when it is an integer.
\<close>

definition counted_records :: "string \<Rightarrow> string \<Rightarrow> pydict list \<Rightarrow> store \<Rightarrow> pydict list" where
  "counted_records trial requirement wizard_records st =
     filter (\<lambda>r. dict_get r ''trial_id'' = JStr trial
                \<and> dict_get r ''type_of_requirement'' = JStr requirement) (quality_records_json st)
     @ filter (\<lambda>r. dict_get r ''type_of_requirement'' = JStr requirement) wizard_records"

definition round_is_int :: "pydict \<Rightarrow> bool" where
  "round_is_int r = (case dict_get_default r ''requirement_round'' (JInt 0) of
                       JInt n \<Rightarrow> True | _ \<Rightarrow> False)"

definition round_of :: "pydict \<Rightarrow> int" where
  "round_of r = (case dict_get_default r ''requirement_round'' (JInt 0) of
                   JInt n \<Rightarrow> n | _ \<Rightarrow> 0)"

text \<open>Quality records of one trial: one of type Forms, one of type Editchecks.\<close>

definition quality_example :: store where
  "quality_example =
     \<lparr>allocations_json = [], uat_records_json = [],
      quality_records_json =
        [[(''trial_id'', JStr ''T1''), (''type_of_requirement'', JStr ''Forms''),
          (''requirement_round'', JInt 1)],
         [(''trial_id'', JStr ''T1''), (''type_of_requirement'', JStr ''Editchecks''),
          (''requirement_round'', JInt 5)]],
      users_json = [], pending_users_json = [], trail_documents_json = [], writable = True\<rparr>"

section \<open>Rejecting a pending registration\<close>

lemma filter_neq_same: "v \<notin> f ` set xs \<Longrightarrow> filter (\<lambda>u. f u \<noteq> v) xs = xs"
  by (induction xs) auto

text \<open>
  C10. For every username, also one with no entry in the pending list, rejecting reports
  success whenever the pending file can be written (there is no not-found check); the
  pending list afterwards holds exactly the entries whose username differs from the
  given one, in their order and unchanged, and no other file changes. When no entry
  bears the username, the list is written back as it was.
\<close>

theorem reject_pending_user_removes_exactly:
  assumes "writable st"
  shows "fst (fst (reject_pending_user username st)) = True
    \<and> pending_users_json (snd (reject_pending_user username st))
        = filter (\<lambda>u. dict_get u ''username'' \<noteq> JStr username) (pending_users_json st)
    \<and> set (pending_users_json (snd (reject_pending_user username st)))
        = {u \<in> set (pending_users_json st). dict_get u ''username'' \<noteq> JStr username}
    \<and> subseq (pending_users_json (snd (reject_pending_user username st))) (pending_users_json st)
    \<and> (JStr username \<notin> (\<lambda>u. dict_get u ''username'') ` set (pending_users_json st)
         \<longrightarrow> snd (reject_pending_user username st) = st)
    \<and> users_json (snd (reject_pending_user username st)) = users_json st"
proof -
  let ?p = "filter (\<lambda>u. dict_get u ''username'' \<noteq> JStr username) (pending_users_json st)"
  have r: "reject_pending_user username st
      = ((True, ''Registration for '' @ [CHR 0x27] @ username @ [CHR 0x27] @ '' rejected''),
         st\<lparr>pending_users_json := ?p\<rparr>)"
    using assms by (simp add: reject_pending_user_def save_pending_users_def load_pending_users_def)
  have same: "JStr username \<notin> (\<lambda>u. dict_get u ''username'') ` set (pending_users_json st)
      \<Longrightarrow> ?p = pending_users_json st"
    by (rule filter_neq_same)
  have c1: "fst (fst (reject_pending_user username st)) = True"
    by (simp add: r)
  have c2: "pending_users_json (snd (reject_pending_user username st)) = ?p"
    by (simp add: r)
  have c3: "set (pending_users_json (snd (reject_pending_user username st)))
      = {u \<in> set (pending_users_json st). dict_get u ''username'' \<noteq> JStr username}"
    unfolding c2 by (rule set_filter)
  have c4: "subseq (pending_users_json (snd (reject_pending_user username st))) (pending_users_json st)"
    unfolding c2 by (rule subseq_filter_left)
  have c5: "JStr username \<notin> (\<lambda>u. dict_get u ''username'') ` set (pending_users_json st)
      \<longrightarrow> snd (reject_pending_user username st) = st"
  proof
    assume "JStr username \<notin> (\<lambda>u. dict_get u ''username'') ` set (pending_users_json st)"
    then have "?p = pending_users_json st" by (rule same)
    then show "snd (reject_pending_user username st) = st" by (simp add: r)
  qed
  have c6: "users_json (snd (reject_pending_user username st)) = users_json st"
    by (simp add: r)
  show ?thesis
    by (intro conjI c1 c2 c3 c4 c5 c6)
qed

theorem reject_pending_user_removes_exactly_witness:
  "writable pending_example
   \<and> fst (fst (reject_pending_user ''zed'' pending_example)) = True
   \<and> pending_users_json (snd (reject_pending_user ''bob'' pending_example))
       = [[(''username'', JStr ''amy'')]]"
proof -
  have w: "writable pending_example"
    by (simp add: pending_example_def)
  note t = reject_pending_user_removes_exactly [OF w]
  have a: "fst (fst (reject_pending_user ''zed'' pending_example)) = True"
    by (rule t [THEN conjunct1])
  have b: "pending_users_json (snd (reject_pending_user ''bob'' pending_example))
      = filter (\<lambda>u. dict_get u ''username'' \<noteq> JStr ''bob'') (pending_users_json pending_example)"
    by (rule t [THEN conjunct2, THEN conjunct1])
  have c: "filter (\<lambda>u. dict_get u ''username'' \<noteq> JStr ''bob'') (pending_users_json pending_example)
      = [[(''username'', JStr ''amy'')]]"
    by (simp add: pending_example_def dict_get_def)
  show ?thesis
    using w a b c by simp
qed

section \<open>Deleting a user\<close>

lemma survivors:
  assumes d: "distinct (map fst xs)"
    and ex: "\<exists>p\<in>set xs. P p"
    and g: "\<not> (length (map fst (filter P xs)) = 1 \<and> k \<in> set (map fst (filter P xs)))"
  shows "\<exists>p\<in>set (AList.delete k xs). P p"
proof -
  have dl: "set (AList.delete k xs) = {p \<in> set xs. fst p \<noteq> k}"
    by (auto simp: AList.delete_eq)
  have df: "distinct (map fst (filter P xs))"
    using d by (rule distinct_map_filter)
  have "\<exists>p\<in>set (filter P xs). fst p \<noteq> k"
  proof (cases "k \<in> set (map fst (filter P xs))")
    case False
    moreover from ex have "filter P xs \<noteq> []" by (auto simp: filter_empty_conv)
    ultimately show ?thesis by (cases "filter P xs") auto
  next
    case True
    with g have "length (filter P xs) \<noteq> 1" by simp
    moreover from True have "filter P xs \<noteq> []" by (cases "filter P xs") simp_all
    ultimately obtain a b rest where e: "filter P xs = a # b # rest"
      by (cases "filter P xs"; cases "tl (filter P xs)") auto
    with df have "fst a \<noteq> fst b" by auto
    then have "fst a \<noteq> k \<or> fst b \<noteq> k" by auto
    with e show ?thesis by auto
  qed
  then show ?thesis unfolding dl by auto
qed


lemma delete_user_cases:
  "delete_user username st =
     (if \<not> dict_has (users_json st) username then ((False, ''User not found''), st)
      else if username = ''superuser'' \<or> username = ''admin''
        then ((False, ''Cannot delete system admin accounts''), st)
      else if only_superuser username (users_json st)
        then ((False, ''Cannot delete the last superuser''), st)
      else if writable st
        then ((True, ''User '' @ [CHR 0x27] @ username @ [CHR 0x27] @ '' (role: ''
                @ py_str (case map_of (users_json st) username of None \<Rightarrow> JNull | Some d \<Rightarrow> dict_get d ''role'')
                @ '') deleted successfully''),
              st\<lparr>users_json := dict_pop username (users_json st)\<rparr>)
      else ((False, ''Failed to delete user''), st))"
  by (simp add: delete_user_def load_users_def has_superuser_role_def only_superuser_def
      save_users_def Let_def)

lemma delete_user_failure_keeps_store:
  "fst (fst (delete_user username st)) = False \<Longrightarrow> snd (delete_user username st) = st"
  by (cases "username = ''superuser''"; cases "username = ''admin''")
    (simp_all add: delete_user_cases split: if_splits)


lemma only_superuser_has:
  "only_superuser username users \<Longrightarrow> dict_has users username"
  by (auto simp: only_superuser_def dict_has_def)

text \<open>
  C3. In a user store (a dictionary, so usernames are distinct): deleting \<open>superuser\<close> or
  \<open>admin\<close> fails with an explicit message and changes nothing; deleting the only account
  whose role is \<open>superuser\<close> fails likewise; when at least two accounts have the role
  \<open>superuser\<close>, the target exists and is not a protected username, and the users file can
  be written, the deletion succeeds and removes the target; and whatever the outcome, a
  store that had an account with role \<open>superuser\<close> still has one afterwards.
\<close>

theorem delete_user_superuser_guard:
  assumes d: "distinct (map fst (users_json st))"
  shows "(username = ''superuser'' \<or> username = ''admin'' \<longrightarrow>
            fst (fst (delete_user username st)) = False
          \<and> snd (fst (delete_user username st))
              \<in> {''User not found'', ''Cannot delete system admin accounts''}
          \<and> snd (delete_user username st) = st)
     \<and> (only_superuser username (users_json st) \<longrightarrow>
            fst (fst (delete_user username st)) = False
          \<and> snd (fst (delete_user username st))
              \<in> {''Cannot delete system admin accounts'', ''Cannot delete the last superuser''}
          \<and> snd (delete_user username st) = st)
     \<and> (writable st \<and> dict_has (users_json st) username
          \<and> username \<noteq> ''superuser'' \<and> username \<noteq> ''admin''
          \<and> 2 \<le> length (filter has_superuser_role (users_json st)) \<longrightarrow>
            fst (fst (delete_user username st)) = True
          \<and> users_json (snd (delete_user username st)) = dict_pop username (users_json st)
          \<and> \<not> dict_has (users_json (snd (delete_user username st))) username)
     \<and> ((\<exists>p\<in>set (users_json st). has_superuser_role p) \<longrightarrow>
          (\<exists>p\<in>set (users_json (snd (delete_user username st))). has_superuser_role p))"
proof -
  let ?r = "delete_user username st"
  have c1: "username = ''superuser'' \<or> username = ''admin'' \<longrightarrow>
            fst (fst ?r) = False
          \<and> snd (fst ?r) \<in> {''User not found'', ''Cannot delete system admin accounts''}
          \<and> snd ?r = st"
    by (cases "username = ''superuser''"; cases "username = ''admin''")
      (simp_all add: delete_user_cases)
  have c2: "only_superuser username (users_json st) \<longrightarrow>
            fst (fst ?r) = False
          \<and> snd (fst ?r) \<in> {''Cannot delete system admin accounts'', ''Cannot delete the last superuser''}
          \<and> snd ?r = st"
  proof
    assume o: "only_superuser username (users_json st)"
    then have h: "dict_has (users_json st) username" by (rule only_superuser_has)
    show "fst (fst ?r) = False
          \<and> snd (fst ?r) \<in> {''Cannot delete system admin accounts'', ''Cannot delete the last superuser''}
          \<and> snd ?r = st"
      using o h by (cases "username = ''superuser''"; cases "username = ''admin''")
        (simp_all add: delete_user_cases)
  qed
  have c3: "writable st \<and> dict_has (users_json st) username
          \<and> username \<noteq> ''superuser'' \<and> username \<noteq> ''admin''
          \<and> 2 \<le> length (filter has_superuser_role (users_json st)) \<longrightarrow>
            fst (fst ?r) = True
          \<and> users_json (snd ?r) = dict_pop username (users_json st)
          \<and> \<not> dict_has (users_json (snd ?r)) username"
  proof
    assume a: "writable st \<and> dict_has (users_json st) username
          \<and> username \<noteq> ''superuser'' \<and> username \<noteq> ''admin''
          \<and> 2 \<le> length (filter has_superuser_role (users_json st))"
    then have n: "\<not> only_superuser username (users_json st)"
      by (simp add: only_superuser_def)
    have gone: "\<not> dict_has (dict_pop username (users_json st)) username"
      using delete_notin_dom [of username "users_json st"] by (simp add: dict_has_def dict_pop_def)
    show "fst (fst ?r) = True
          \<and> users_json (snd ?r) = dict_pop username (users_json st)
          \<and> \<not> dict_has (users_json (snd ?r)) username"
      using a n gone by (simp add: delete_user_cases)
  qed
  have c4: "(\<exists>p\<in>set (users_json st). has_superuser_role p) \<longrightarrow>
          (\<exists>p\<in>set (users_json (snd ?r)). has_superuser_role p)"
  proof
    assume ex: "\<exists>p\<in>set (users_json st). has_superuser_role p"
    show "\<exists>p\<in>set (users_json (snd ?r)). has_superuser_role p"
    proof (cases "fst (fst ?r)")
      case False
      then have "snd ?r = st" by (simp add: delete_user_failure_keeps_store)
      with ex show ?thesis by simp
    next
      case True
      then have n: "\<not> only_superuser username (users_json st)"
        and u: "users_json (snd ?r) = AList.delete username (users_json st)"
        by (simp_all add: delete_user_cases dict_pop_def split: if_splits)
      from n have g: "\<not> (length (map fst (filter has_superuser_role (users_json st))) = 1
          \<and> username \<in> set (map fst (filter has_superuser_role (users_json st))))"
        by (simp add: only_superuser_def)
      show ?thesis unfolding u by (rule survivors [OF d ex g])
    qed
  qed
  show ?thesis
    by (intro conjI c1 c2 c3 c4)
qed


theorem delete_user_superuser_guard_witness:
  "distinct (map fst (users_json users_example))
   \<and> distinct (map fst (users_json users_single))
   \<and> fst (fst (delete_user ''admin'' users_example)) = False
   \<and> only_superuser ''root'' (users_json users_single)
   \<and> fst (fst (delete_user ''root'' users_single)) = False
   \<and> snd (delete_user ''root'' users_single) = users_single
   \<and> fst (fst (delete_user ''boss'' users_example)) = True
   \<and> \<not> dict_has (users_json (snd (delete_user ''boss'' users_example))) ''boss''
   \<and> (\<exists>p\<in>set (users_json (snd (delete_user ''boss'' users_example))). has_superuser_role p)"
proof -
  have d2: "distinct (map fst (users_json users_example))"
    by (simp add: users_example_def)
  have d1: "distinct (map fst (users_json users_single))"
    by (simp add: users_single_def)
  note t2 = delete_user_superuser_guard [OF d2]
  note t1 = delete_user_superuser_guard [OF d1]
  have a: "fst (fst (delete_user ''admin'' users_example)) = False"
    using t2 [of "''admin''", THEN conjunct1] by simp
  have o: "only_superuser ''root'' (users_json users_single)"
    by (simp add: users_single_def only_superuser_def has_superuser_role_def dict_get_def)
  have b: "fst (fst (delete_user ''root'' users_single)) = False
      \<and> snd (delete_user ''root'' users_single) = users_single"
    using t1 [of "''root''", THEN conjunct2, THEN conjunct1] o by simp
  have h3: "writable users_example \<and> dict_has (users_json users_example) ''boss''
      \<and> ''boss'' \<noteq> ''superuser'' \<and> ''boss'' \<noteq> ''admin''
      \<and> 2 \<le> length (filter has_superuser_role (users_json users_example))"
    by (simp add: users_example_def dict_has_def has_superuser_role_def dict_get_def)
  note c0 = t2 [of "''boss''", THEN conjunct2, THEN conjunct2, THEN conjunct1, THEN mp, OF h3]
  have c: "fst (fst (delete_user ''boss'' users_example)) = True
      \<and> \<not> dict_has (users_json (snd (delete_user ''boss'' users_example))) ''boss''"
    by (intro conjI c0 [THEN conjunct1] c0 [THEN conjunct2, THEN conjunct2])
  have ex: "\<exists>p\<in>set (users_json users_example). has_superuser_role p"
    by (simp add: users_example_def has_superuser_role_def dict_get_def)
  have e: "\<exists>p\<in>set (users_json (snd (delete_user ''boss'' users_example))). has_superuser_role p"
    by (rule t2 [of "''boss''", THEN conjunct2, THEN conjunct2, THEN conjunct2, THEN mp, OF ex])
  show ?thesis
    by (intro conjI d2 d1 a o b [THEN conjunct1] b [THEN conjunct2]
        c [THEN conjunct1] c [THEN conjunct2] e)
qed

section \<open>Authentication and missing keys\<close>

lemma dict_has_map_of: "dict_has d k = (map_of d k \<noteq> None)"
  by (simp add: dict_has_def map_of_eq_None_iff)

lemma map_of_dict_set: "map_of (dict_set k v d) = (map_of d)(k \<mapsto> v)"
  by (simp add: dict_set_def update_conv')

lemma map_of_dict_pop: "map_of (dict_pop k d) = (map_of d)(k := None)"
  by (simp add: dict_pop_def delete_conv')

lemma dict_get_default_eq:
  "dict_get_default d k v = (if dict_has d k then dict_get d k else v)"
  by (cases "map_of d k") (simp_all add: dict_get_default_def dict_get_def dict_has_map_of)

lemma authenticate_user_success:
  assumes u: "map_of (users_json st) username = Some user"
    and h: "dict_get_default user ''password'' (JStr '''') = JStr (hash_password password)"
    and a: "truthy (dict_get_default user ''is_active'' (JBool True))"
    and s: "dict_get_default user ''status'' (JStr ''active'') = JStr ''active''"
  shows "authenticate_user hash_password username password st = Some (identity_of username user)"
  using u h a s by (simp add: authenticate_user_def load_users_def Let_def identity_of_def)

text \<open>
  C9 (as amended). A missing \<open>is_active\<close> counts as true and a missing \<open>status\<close> as
  \<open>active\<close>: a stored account authenticates whenever the hash of the supplied password
  equals the stored hash, \<open>is_active\<close> is missing or truthy, and \<open>status\<close> is missing or
  equal to \<open>active\<close>. The identity returned has no \<open>password\<close> field, has \<open>username\<close>
  set, has \<open>is_audit_reviewer\<close> equal to the record's value or \<open>False\<close> when the record has
  none, and agrees with the record on every other key. A key that is present is still
  checked: see the counterexample below.
\<close>

theorem authenticate_user_defaults:
  assumes u: "map_of (users_json st) username = Some user"
    and h: "dict_get_default user ''password'' (JStr '''') = JStr (hash_password password)"
    and a: "\<not> dict_has user ''is_active'' \<or> truthy (dict_get user ''is_active'')"
    and s: "\<not> dict_has user ''status'' \<or> dict_get user ''status'' = JStr ''active''"
  shows "\<exists>identity. authenticate_user hash_password username password st = Some identity
      \<and> \<not> dict_has identity ''password''
      \<and> dict_get identity ''username'' = JStr username
      \<and> dict_get identity ''is_audit_reviewer''
          = (if dict_has user ''is_audit_reviewer'' then dict_get user ''is_audit_reviewer'' else JBool False)
      \<and> (\<forall>k. k \<noteq> ''password'' \<and> k \<noteq> ''username'' \<and> k \<noteq> ''is_audit_reviewer''
            \<longrightarrow> map_of identity k = map_of user k)"
proof -
  have a': "truthy (dict_get_default user ''is_active'' (JBool True))"
    using a by (cases "dict_has user ''is_active''") (simp_all add: dict_get_default_eq)
  have s': "dict_get_default user ''status'' (JStr ''active'') = JStr ''active''"
    using s by (cases "dict_has user ''status''") (simp_all add: dict_get_default_eq)
  have r: "authenticate_user hash_password username password st = Some (identity_of username user)"
    by (rule authenticate_user_success [where hash_password = hash_password and password = password, OF u h a' s'])
  have m: "map_of (identity_of username user)
      = ((map_of user)(''password'' := None))(''username'' \<mapsto> JStr username,
          ''is_audit_reviewer'' \<mapsto> dict_get_default user ''is_audit_reviewer'' (JBool False))"
    by (simp add: identity_of_def map_of_dict_set map_of_dict_pop)
  have p1: "\<not> dict_has (identity_of username user) ''password''"
    by (simp add: dict_has_map_of m)
  have p2: "dict_get (identity_of username user) ''username'' = JStr username"
    by (simp add: dict_get_def m)
  have p3: "dict_get (identity_of username user) ''is_audit_reviewer''
      = (if dict_has user ''is_audit_reviewer'' then dict_get user ''is_audit_reviewer'' else JBool False)"
    by (simp add: dict_get_def m dict_get_default_eq)
  have p4: "\<forall>k. k \<noteq> ''password'' \<and> k \<noteq> ''username'' \<and> k \<noteq> ''is_audit_reviewer''
            \<longrightarrow> map_of (identity_of username user) k = map_of user k"
    by (simp add: m)
  show ?thesis
    by (rule exI [of _ "identity_of username user"]) (intro conjI r p1 p2 p3 p4)
qed

theorem authenticate_user_defaults_witness:
  "\<exists>identity. authenticate_user toy_hash ''amy'' ''pw'' auth_example = Some identity
      \<and> \<not> dict_has identity ''password''
      \<and> dict_get identity ''username'' = JStr ''amy''
      \<and> dict_get identity ''is_audit_reviewer'' = JBool False"
proof -
  let ?user = "[(''password'', JStr ''#pw''), (''role'', JStr ''user'')]"
  have u: "map_of (users_json auth_example) ''amy'' = Some ?user"
    by (simp add: auth_example_def)
  have h: "dict_get_default ?user ''password'' (JStr '''') = JStr (toy_hash ''pw'')"
    by (simp add: dict_get_default_def toy_hash_def)
  have a: "\<not> dict_has ?user ''is_active'' \<or> truthy (dict_get ?user ''is_active'')"
    by (simp add: dict_has_def)
  have s: "\<not> dict_has ?user ''status'' \<or> dict_get ?user ''status'' = JStr ''active''"
    by (simp add: dict_has_def)
  have n: "\<not> dict_has ?user ''is_audit_reviewer''"
    by (simp add: dict_has_def)
  from authenticate_user_defaults [where hash_password = toy_hash and password = "''pw''", OF u h a s]
  obtain identity where i: "authenticate_user toy_hash ''amy'' ''pw'' auth_example = Some identity"
      and p1: "\<not> dict_has identity ''password''"
      and p2: "dict_get identity ''username'' = JStr ''amy''"
      and p3: "dict_get identity ''is_audit_reviewer''
          = (if dict_has ?user ''is_audit_reviewer'' then dict_get ?user ''is_audit_reviewer'' else JBool False)"
    by (elim exE conjE)
  from p3 n have p3': "dict_get identity ''is_audit_reviewer'' = JBool False"
    by (simp only: if_False)
  show ?thesis
    by (rule exI [of _ identity]) (intro conjI i p1 p2 p3')
qed

text \<open>
  The claim as first stated fails: the record of \<open>bob\<close> has no \<open>is_active\<close> key and the
  password matches, but its \<open>status\<close> is \<open>inactive\<close>, and authentication returns \<open>None\<close>.
\<close>

theorem authenticate_user_missing_key_counterexample:
  "map_of (users_json auth_example) ''bob''
      = Some [(''password'', JStr ''#pw''), (''status'', JStr ''inactive'')]
   \<and> \<not> dict_has [(''password'', JStr ''#pw''), (''status'', JStr ''inactive'')] ''is_active''
   \<and> dict_get_default [(''password'', JStr ''#pw''), (''status'', JStr ''inactive'')] ''password'' (JStr '''')
      = JStr (toy_hash ''pw'')
   \<and> authenticate_user toy_hash ''bob'' ''pw'' auth_example = None"
  by (simp add: auth_example_def dict_has_def dict_get_default_def toy_hash_def
      authenticate_user_def load_users_def)

section \<open>Allocations and UAT entries in one file\<close>

lemma load_allocations_eq: "load_allocations st = filter (\<lambda>i. \<not> is_uat i) (allocations_json st)"
  by (simp add: load_allocations_def load_all_data_def is_uat_def)

lemma save_allocations_eq:
  "save_allocations allocations st =
     (if writable st
      then (True, st\<lparr>allocations_json := filter is_uat (allocations_json st) @ allocations\<rparr>)
      else (False, st))"
proof -
  have "(\<lambda>item. dict_get item ''record_type'' = JStr ''uat'') = is_uat"
    by (rule ext) (simp add: is_uat_def)
  then show ?thesis
    by (simp add: save_allocations_def save_all_data_def load_all_data_def Let_def)
qed

lemma filter_own_append:
  "filter P (filter P xs @ ys) = filter P xs @ filter P ys"
  by simp

lemma filter_none: "(\<And>y. y \<in> set ys \<Longrightarrow> \<not> P y) \<Longrightarrow> filter P ys = []"
  by (simp add: filter_empty_conv)

lemma save_allocations_uat:
  "filter is_uat (allocations_json (snd (save_allocations allocations st)))
     = filter is_uat (allocations_json st) @ (if writable st then filter is_uat allocations else [])"
  by (simp add: save_allocations_eq)

lemma save_allocations_uat_same:
  assumes "\<And>y. y \<in> set allocations \<Longrightarrow> \<not> is_uat y"
  shows "filter is_uat (allocations_json (snd (save_allocations allocations st)))
     = filter is_uat (allocations_json st)"
  using filter_none [of allocations is_uat, OF assms] by (simp add: save_allocations_uat)

lemma stamped_not_uat:
  "\<not> is_uat (dict_set ''record_type'' (JStr ''allocation'') d)"
  by (simp add: is_uat_def dict_get_def map_of_dict_set)

lemma create_allocation_record_eq:
  "create_allocation_record now_id now_stamp allocation_data username st =
     (let d = dict_set ''record_type'' (JStr ''allocation'')
                (dict_set ''created_at'' (JStr now_stamp)
                  (dict_set ''created_by'' (JStr username)
                    (dict_set ''id'' (JStr now_id) allocation_data)))
      in if writable st
         then ((True, ''Allocation created successfully''),
               snd (save_allocations (load_allocations st @ [d]) st))
         else ((False, ''Failed to save allocation''), st))"
  by (simp add: create_allocation_record_def Let_def save_allocations_eq)

lemma delete_allocation_record_store:
  "snd (delete_allocation_record allocation_id st) = st
   \<or> snd (delete_allocation_record allocation_id st)
        = snd (save_allocations
                 (filter (\<lambda>a. dict_get a ''id'' \<noteq> JStr allocation_id) (load_allocations st)) st)"
  by (simp add: delete_allocation_record_def Let_def save_allocations_eq)

lemma save_allocations_uat_prefix:
  "prefix (filter is_uat (allocations_json st))
     (filter is_uat (allocations_json (snd (save_allocations allocations st))))"
  by (rule prefixI) (rule save_allocations_uat)

lemma update_allocation_record_frame:
  "prefix (filter is_uat (allocations_json st))
     (filter is_uat (allocations_json
        (snd (update_allocation_record now_stamp allocation_id updated_data username st))))"
proof (cases "update_first (\<lambda>allocation. dict_get allocation ''id'' = JStr allocation_id)
             (\<lambda>allocation. dict_set ''updated_at'' (JStr now_stamp)
                (dict_set ''updated_by'' (JStr username) (dict_update allocation updated_data)))
             (load_allocations st)")
  case None
  then have "snd (update_allocation_record now_stamp allocation_id updated_data username st) = st"
    by (simp add: update_allocation_record_def)
  then show ?thesis by simp
next
  case (Some allocations)
  then have "snd (update_allocation_record now_stamp allocation_id updated_data username st)
      = snd (save_allocations allocations st)"
    by (simp add: update_allocation_record_def split_def Let_def)
  then show ?thesis by (simp only: save_allocations_uat_prefix)
qed

lemma delete_allocation_record_frame:
  "filter is_uat (allocations_json (snd (delete_allocation_record allocation_id st)))
     = filter is_uat (allocations_json st)"
proof -
  let ?kept = "filter (\<lambda>a. dict_get a ''id'' \<noteq> JStr allocation_id) (load_allocations st)"
  have "\<And>y. y \<in> set ?kept \<Longrightarrow> \<not> is_uat y"
    by (simp add: load_allocations_eq)
  then have "filter is_uat (allocations_json (snd (save_allocations ?kept st)))
     = filter is_uat (allocations_json st)"
    by (rule save_allocations_uat_same)
  with delete_allocation_record_store [of allocation_id st] show ?thesis
    by (elim disjE) simp_all
qed

lemma create_allocation_record_frame:
  "filter is_uat (allocations_json (snd (create_allocation_record now_id now_stamp allocation_data username st)))
     = filter is_uat (allocations_json st)"
  by (simp add: create_allocation_record_eq Let_def save_allocations_uat load_allocations_eq
      stamped_not_uat)

lemma create_allocation_record_count:
  "length (filter (\<lambda>i. \<not> is_uat i)
      (allocations_json (snd (create_allocation_record now_id now_stamp allocation_data username st))))
     = length (filter (\<lambda>i. \<not> is_uat i) (allocations_json st)) + (if writable st then 1 else 0)"
  by (simp add: create_allocation_record_eq Let_def save_allocations_eq load_allocations_eq
      stamped_not_uat)

lemma save_uat_records_frame:
  "allocations_json (snd (save_uat_records records st)) = allocations_json st"
  by (simp add: save_uat_records_def)

text \<open>
  C1. Saving the allocation collection writes the UAT-typed entries of the shared file,
  in their order and unchanged, followed by the allocations: the UAT-typed entries that
  were in the file are still there. Creating or deleting an allocation leaves the list
  of UAT-typed entries exactly as it was, and a successful create adds one entry that is
  not UAT-typed; an update keeps the former UAT-typed entries as the head of that list.
  Saving the UAT collection writes \<open>uat_records.json\<close> only, so no entry of the shared
  allocations file changes; saving allocations does not touch \<open>uat_records.json\<close>.
\<close>

theorem shared_file_frame:
  "allocations_json (snd (save_allocations allocations st))
      = (if writable st then filter is_uat (allocations_json st) @ allocations
         else allocations_json st)
   \<and> prefix (filter is_uat (allocations_json st))
        (filter is_uat (allocations_json (snd (save_allocations allocations st))))
   \<and> filter is_uat (allocations_json
        (snd (create_allocation_record now_id now_stamp allocation_data username st)))
      = filter is_uat (allocations_json st)
   \<and> length (filter (\<lambda>i. \<not> is_uat i) (allocations_json
        (snd (create_allocation_record now_id now_stamp allocation_data username st))))
      = length (filter (\<lambda>i. \<not> is_uat i) (allocations_json st)) + (if writable st then 1 else 0)
   \<and> prefix (filter is_uat (allocations_json st))
        (filter is_uat (allocations_json
          (snd (update_allocation_record now_stamp allocation_id updated_data username st))))
   \<and> filter is_uat (allocations_json (snd (delete_allocation_record allocation_id st)))
      = filter is_uat (allocations_json st)
   \<and> allocations_json (snd (save_uat_records records st)) = allocations_json st
   \<and> uat_records_json (snd (save_allocations allocations st)) = uat_records_json st"
proof -
  have s1: "allocations_json (snd (save_allocations allocations st))
      = (if writable st then filter is_uat (allocations_json st) @ allocations
         else allocations_json st)"
    by (simp add: save_allocations_eq)
  have s2: "uat_records_json (snd (save_allocations allocations st)) = uat_records_json st"
    by (simp add: save_allocations_eq)
  show ?thesis
    by (intro conjI s1 save_allocations_uat_prefix create_allocation_record_frame
        create_allocation_record_count update_allocation_record_frame
        delete_allocation_record_frame save_uat_records_frame s2)
qed

theorem shared_file_frame_witness:
  "length (filter is_uat (allocations_json shared_example)) = 2
   \<and> length (filter (\<lambda>i. \<not> is_uat i) (allocations_json shared_example)) = 3
   \<and> filter is_uat (allocations_json
        (snd (create_allocation_record ''20240101120000'' ''2024-01-01 12:00:00''
               [(''trial_id'', JStr ''T9'')] ''amy'' shared_example)))
      = [[(''id'', JStr ''u1''), (''record_type'', JStr ''uat'')],
         [(''id'', JStr ''u2''), (''record_type'', JStr ''uat'')]]
   \<and> length (filter (\<lambda>i. \<not> is_uat i) (allocations_json
        (snd (create_allocation_record ''20240101120000'' ''2024-01-01 12:00:00''
               [(''trial_id'', JStr ''T9'')] ''amy'' shared_example)))) = 4"
proof -
  note t = shared_file_frame [of _ shared_example "''20240101120000''" "''2024-01-01 12:00:00''"
      "[(''trial_id'', JStr ''T9'')]" "''amy''"]
  have u: "filter is_uat (allocations_json shared_example)
      = [[(''id'', JStr ''u1''), (''record_type'', JStr ''uat'')],
         [(''id'', JStr ''u2''), (''record_type'', JStr ''uat'')]]"
    by (simp add: shared_example_def is_uat_def dict_get_def)
  have a: "length (filter (\<lambda>i. \<not> is_uat i) (allocations_json shared_example)) = 3"
    by (simp add: shared_example_def is_uat_def dict_get_def)
  have w: "writable shared_example"
    by (simp add: shared_example_def)
  have c1: "filter is_uat (allocations_json
        (snd (create_allocation_record ''20240101120000'' ''2024-01-01 12:00:00''
               [(''trial_id'', JStr ''T9'')] ''amy'' shared_example)))
      = [[(''id'', JStr ''u1''), (''record_type'', JStr ''uat'')],
         [(''id'', JStr ''u2''), (''record_type'', JStr ''uat'')]]"
    using t [THEN conjunct2, THEN conjunct2, THEN conjunct1] u by (rule trans)
  have c2: "length (filter (\<lambda>i. \<not> is_uat i) (allocations_json
        (snd (create_allocation_record ''20240101120000'' ''2024-01-01 12:00:00''
               [(''trial_id'', JStr ''T9'')] ''amy'' shared_example)))) = 4"
    using t [THEN conjunct2, THEN conjunct2, THEN conjunct2, THEN conjunct1] a w by simp
  have u2: "length (filter is_uat (allocations_json shared_example)) = 2"
    by (simp add: u)
  show ?thesis
    by (intro conjI u2 a c1 c2)
qed

section \<open>UAT records: the reason for a date difference\<close>

lemma create_uat_record_blocked:
  assumes "has_date_difference uat_data"
    and "\<not> truthy (dict_get uat_data ''date_difference_reason'')"
  shows "fst (fst (create_uat_record now_id now_created now_updated uat_data username st)) = False
    \<and> snd (create_uat_record now_id now_created now_updated uat_data username st) = st
    \<and> (snd (fst (create_uat_record now_id now_created now_updated uat_data username st)) = date_reason_message
        \<or> (\<exists>field \<in> set required_fields.
              snd (fst (create_uat_record now_id now_created now_updated uat_data username st))
                = title (replace_char CHR ''_'' CHR '' '' field) @ '' is required''))"
proof (cases "find (\<lambda>field. \<not> truthy (dict_get uat_data field)) required_fields")
  case None
  with assms show ?thesis by (simp add: create_uat_record_def)
next
  case (Some field)
  then have "field \<in> set required_fields"
    by (auto simp: find_Some_iff)
  with Some show ?thesis by (auto simp: create_uat_record_def)
qed

lemma update_uat_record_blocked:
  assumes "has_date_difference uat_data"
    and "\<not> truthy (dict_get uat_data ''date_difference_reason'')"
  shows "update_uat_record now_updated record_id uat_data username st = ((False, date_reason_message), st)"
  using assms by (simp add: update_uat_record_def)

lemma required_message_differs:
  "field \<in> set required_fields \<Longrightarrow>
     title (replace_char CHR ''_'' CHR '' '' field) @ '' is required'' \<noteq> date_reason_message"
  by (auto simp: required_fields_def title_def replace_char_def is_letter_def to_upper_def
      to_lower_def lower_letters_def upper_letters_def date_reason_message_def)

lemma create_uat_record_not_blocked:
  assumes "truthy (dict_get uat_data ''date_difference_reason'')"
  shows "snd (fst (create_uat_record now_id now_created now_updated uat_data username st))
      \<noteq> date_reason_message"
proof (cases "find (\<lambda>field. \<not> truthy (dict_get uat_data field)) required_fields")
  case (Some field)
  then have "field \<in> set required_fields"
    by (auto simp: find_Some_iff)
  then have "title (replace_char CHR ''_'' CHR '' '' field) @ '' is required'' \<noteq> date_reason_message"
    by (rule required_message_differs)
  with Some show ?thesis by (simp add: create_uat_record_def)
next
  case None
  show ?thesis
  proof (cases "uat_field_values uat_data")
    case (Inl e)
    with None assms show ?thesis
      by (simp add: create_uat_record_def date_reason_message_def)
  next
    case (Inr field_values)
    with None assms show ?thesis
      by (simp add: create_uat_record_def date_reason_message_def Let_def split_def)
  qed
qed

lemma update_uat_record_not_blocked:
  assumes "truthy (dict_get uat_data ''date_difference_reason'')"
  shows "snd (fst (update_uat_record now_updated record_id uat_data username st))
      \<noteq> date_reason_message"
proof (cases "uat_field_values uat_data")
  case (Inl e)
  with assms show ?thesis
    by (simp add: update_uat_record_def date_reason_message_def Let_def)
next
  case (Inr field_values)
  with assms show ?thesis
    by (simp add: update_uat_record_def date_reason_message_def Let_def split_def)
qed

text \<open>
  C5. When a non-empty actual start date differs from the planned start date, or a
  non-empty actual end date from the planned end date: with \<open>date_difference_reason\<close>
  absent or empty, creating fails with a validation message (the one about the reason,
  or the one about a missing required field, which is checked first) and updating fails
  with the message about the reason, and neither writes anything; with a non-empty
  reason, neither function answers with the message about the reason.
\<close>

theorem uat_date_difference_needs_reason:
  assumes diff:
    "(truthy (dict_get uat_data ''actual_start_date'')
        \<and> \<not> py_eq (dict_get uat_data ''actual_start_date'') (dict_get uat_data ''planned_start_date''))
     \<or> (truthy (dict_get uat_data ''actual_end_date'')
        \<and> \<not> py_eq (dict_get uat_data ''actual_end_date'') (dict_get uat_data ''planned_end_date''))"
  shows "(\<not> truthy (dict_get uat_data ''date_difference_reason'') \<longrightarrow>
            fst (fst (create_uat_record now_id now_created now_updated uat_data username st)) = False
          \<and> snd (create_uat_record now_id now_created now_updated uat_data username st) = st
          \<and> (snd (fst (create_uat_record now_id now_created now_updated uat_data username st))
                = date_reason_message
              \<or> (\<exists>field \<in> set required_fields.
                    snd (fst (create_uat_record now_id now_created now_updated uat_data username st))
                      = title (replace_char CHR ''_'' CHR '' '' field) @ '' is required''))
          \<and> update_uat_record now_updated record_id uat_data username st
                = ((False, date_reason_message), st))
     \<and> (truthy (dict_get uat_data ''date_difference_reason'') \<longrightarrow>
            snd (fst (create_uat_record now_id now_created now_updated uat_data username st))
              \<noteq> date_reason_message
          \<and> snd (fst (update_uat_record now_updated record_id uat_data username st))
              \<noteq> date_reason_message)"
proof -
  have h: "has_date_difference uat_data"
    using diff by (simp add: has_date_difference_def)
  have a: "\<not> truthy (dict_get uat_data ''date_difference_reason'') \<longrightarrow>
            fst (fst (create_uat_record now_id now_created now_updated uat_data username st)) = False
          \<and> snd (create_uat_record now_id now_created now_updated uat_data username st) = st
          \<and> (snd (fst (create_uat_record now_id now_created now_updated uat_data username st))
                = date_reason_message
              \<or> (\<exists>field \<in> set required_fields.
                    snd (fst (create_uat_record now_id now_created now_updated uat_data username st))
                      = title (replace_char CHR ''_'' CHR '' '' field) @ '' is required''))
          \<and> update_uat_record now_updated record_id uat_data username st
                = ((False, date_reason_message), st)"
  proof
    assume n: "\<not> truthy (dict_get uat_data ''date_difference_reason'')"
    note c = create_uat_record_blocked [OF h n, of now_id now_created now_updated username st]
    show "fst (fst (create_uat_record now_id now_created now_updated uat_data username st)) = False
          \<and> snd (create_uat_record now_id now_created now_updated uat_data username st) = st
          \<and> (snd (fst (create_uat_record now_id now_created now_updated uat_data username st))
                = date_reason_message
              \<or> (\<exists>field \<in> set required_fields.
                    snd (fst (create_uat_record now_id now_created now_updated uat_data username st))
                      = title (replace_char CHR ''_'' CHR '' '' field) @ '' is required''))
          \<and> update_uat_record now_updated record_id uat_data username st
                = ((False, date_reason_message), st)"
      by (intro conjI c [THEN conjunct1] c [THEN conjunct2, THEN conjunct1]
          c [THEN conjunct2, THEN conjunct2] update_uat_record_blocked [OF h n])
  qed
  have b: "truthy (dict_get uat_data ''date_difference_reason'') \<longrightarrow>
            snd (fst (create_uat_record now_id now_created now_updated uat_data username st))
              \<noteq> date_reason_message
          \<and> snd (fst (update_uat_record now_updated record_id uat_data username st))
              \<noteq> date_reason_message"
  proof
    assume t: "truthy (dict_get uat_data ''date_difference_reason'')"
    show "snd (fst (create_uat_record now_id now_created now_updated uat_data username st))
              \<noteq> date_reason_message
          \<and> snd (fst (update_uat_record now_updated record_id uat_data username st))
              \<noteq> date_reason_message"
      by (intro conjI create_uat_record_not_blocked [OF t] update_uat_record_not_blocked [OF t])
  qed
  show ?thesis
    by (intro conjI a b)
qed

theorem uat_date_difference_needs_reason_witness:
  "fst (fst (create_uat_record ''20240312101500'' ''2024-03-12 10:15:00'' ''2024-03-12 10:15:00''
        uat_request ''amy'' uat_store)) = False
   \<and> snd (create_uat_record ''20240312101500'' ''2024-03-12 10:15:00'' ''2024-03-12 10:15:00''
        uat_request ''amy'' uat_store) = uat_store
   \<and> update_uat_record ''2024-03-12 10:15:00'' ''20240101000000'' uat_request ''amy'' uat_store
        = ((False, date_reason_message), uat_store)
   \<and> snd (fst (create_uat_record ''20240312101500'' ''2024-03-12 10:15:00'' ''2024-03-12 10:15:00''
        uat_request_with_reason ''amy'' uat_store)) \<noteq> date_reason_message
   \<and> fst (fst (create_uat_record ''20240312101500'' ''2024-03-12 10:15:00'' ''2024-03-12 10:15:00''
        uat_request_with_reason ''amy'' uat_store)) = True"
proof -
  have d: "(truthy (dict_get uat_request ''actual_start_date'')
        \<and> \<not> py_eq (dict_get uat_request ''actual_start_date'') (dict_get uat_request ''planned_start_date''))
     \<or> (truthy (dict_get uat_request ''actual_end_date'')
        \<and> \<not> py_eq (dict_get uat_request ''actual_end_date'') (dict_get uat_request ''planned_end_date''))"
    by (simp add: uat_request_def dict_get_def py_eq_def)
  have n: "\<not> truthy (dict_get uat_request ''date_difference_reason'')"
    by (simp add: uat_request_def dict_get_def)
  note t = uat_date_difference_needs_reason [of uat_request "''20240312101500''"
      "''2024-03-12 10:15:00''" "''2024-03-12 10:15:00''" "''amy''" uat_store
      "''20240101000000''", OF d, THEN conjunct1, THEN mp, OF n]
  have d2: "(truthy (dict_get uat_request_with_reason ''actual_start_date'')
        \<and> \<not> py_eq (dict_get uat_request_with_reason ''actual_start_date'')
              (dict_get uat_request_with_reason ''planned_start_date''))
     \<or> (truthy (dict_get uat_request_with_reason ''actual_end_date'')
        \<and> \<not> py_eq (dict_get uat_request_with_reason ''actual_end_date'')
              (dict_get uat_request_with_reason ''planned_end_date''))"
    by (simp add: uat_request_with_reason_def uat_request_def dict_get_def py_eq_def)
  have r: "truthy (dict_get uat_request_with_reason ''date_difference_reason'')"
    by (simp add: uat_request_with_reason_def uat_request_def dict_get_def)
  note t2 = uat_date_difference_needs_reason [of uat_request_with_reason "''20240312101500''"
      "''2024-03-12 10:15:00''" "''2024-03-12 10:15:00''" "''amy''" uat_store
      "''20240101000000''", OF d2, THEN conjunct2, THEN mp, OF r]
  have ok: "fst (fst (create_uat_record ''20240312101500'' ''2024-03-12 10:15:00'' ''2024-03-12 10:15:00''
        uat_request_with_reason ''amy'' uat_store)) = True"
    by (simp add: create_uat_record_def required_fields_def uat_request_with_reason_def
        uat_request_def dict_get_def has_date_difference_def py_eq_def uat_field_values_def
        dict_item_def value_strip_def and_then_def dict_get_default_def save_uat_records_def
        load_uat_records_def uat_store_def Let_def)
  show ?thesis
    by (intro conjI t [THEN conjunct1] t [THEN conjunct2, THEN conjunct1]
        t [THEN conjunct2, THEN conjunct2, THEN conjunct2] t2 [THEN conjunct1] ok)
qed

section \<open>Uniqueness of the TMF/Vault id\<close>

lemma dropWhile_all: "(\<forall>x\<in>set xs. P x) \<Longrightarrow> dropWhile P xs = []"
  by simp

lemma strip_generic_blank:
  "(rev (dropWhile P (rev (dropWhile P s))) = []) = (\<forall>x\<in>set s. P x)"
proof
  assume a: "rev (dropWhile P (rev (dropWhile P s))) = []"
  show "\<forall>x\<in>set s. P x"
  proof (rule ccontr)
    assume "\<not> (\<forall>x\<in>set s. P x)"
    then have n: "dropWhile P s \<noteq> []" by (simp add: dropWhile_eq_Nil_conv)
    then have "\<not> P (hd (dropWhile P s))" by (rule hd_dropWhile)
    moreover from n have "hd (dropWhile P s) \<in> set (rev (dropWhile P s))" by simp
    moreover from a have "\<forall>x\<in>set (rev (dropWhile P s)). P x"
      by (simp add: dropWhile_eq_Nil_conv)
    ultimately show False by blast
  qed
next
  assume "\<forall>x\<in>set s. P x"
  then have "dropWhile P s = []" by (simp only: dropWhile_eq_Nil_conv)
  then show "rev (dropWhile P (rev (dropWhile P s))) = []" by (simp only: rev.simps dropWhile.simps)
qed

lemma strip_generic_surround:
  assumes a: "\<forall>x\<in>set a. P x" and b: "\<forall>x\<in>set b. P x"
  shows "rev (dropWhile P (rev (dropWhile P (a @ s @ b)))) = rev (dropWhile P (rev (dropWhile P s)))"
proof -
  from a have "\<And>x. x \<in> set a \<Longrightarrow> P x" by auto
  then have 1: "dropWhile P (a @ s @ b) = dropWhile P (s @ b)"
    by (rule dropWhile_append2)
  show ?thesis
  proof (cases "\<forall>x\<in>set s. P x")
    case True
    with b have "\<forall>x\<in>set (s @ b). P x" by auto
    then have 2: "dropWhile P (s @ b) = []" by (simp only: dropWhile_eq_Nil_conv)
    from True have 3: "dropWhile P s = []" by (simp only: dropWhile_eq_Nil_conv)
    show ?thesis by (simp only: 1 2 3)
  next
    case False
    then obtain x where "x \<in> set s" and "\<not> P x" by blast
    then have "dropWhile P (s @ b) = dropWhile P s @ b"
      by (rule dropWhile_append1)
    with 1 have "rev (dropWhile P (a @ s @ b)) = rev b @ rev (dropWhile P s)" by simp
    moreover from b have "\<And>x. x \<in> set (rev b) \<Longrightarrow> P x" by auto
    then have "dropWhile P (rev b @ rev (dropWhile P s)) = dropWhile P (rev (dropWhile P s))"
      by (rule dropWhile_append2)
    ultimately show ?thesis by simp
  qed
qed

lemma strip_blank: "(strip s = []) = list_all is_space s"
  unfolding strip_def list_all_iff by (rule strip_generic_blank)

lemma strip_surround:
  "list_all is_space a \<Longrightarrow> list_all is_space b \<Longrightarrow> strip (a @ s @ b) = strip s"
  unfolding strip_def list_all_iff by (rule strip_generic_surround)

lemma duplicate_scan_stop:
  "duplicate_scan target exclude_id documents =
     (case first_stop target exclude_id documents of
        None \<Rightarrow> Inr (False, [])
      | Some doc \<Rightarrow>
          (case value_strip (dict_get_default doc ''tmf_vault_id'' (JStr '''')) of
             Inl e \<Rightarrow> Inl e
           | Inr v \<Rightarrow> Inr (True, duplicate_info doc)))"
proof (induction documents)
  case Nil
  show ?case by (simp add: first_stop_def)
next
  case (Cons doc documents)
  show ?case
  proof (cases "dict_get_default doc ''tmf_vault_id'' (JStr '''')")
    case (JStr s)
    with Cons.IH show ?thesis
      by (simp add: first_stop_def excluded_def tmf_is_string_def tmf_key_def value_strip_def)
  next
    case JNull
    with Cons.IH show ?thesis
      by (simp add: first_stop_def excluded_def tmf_is_string_def tmf_key_def value_strip_def)
  next
    case (JBool b)
    with Cons.IH show ?thesis
      by (simp add: first_stop_def excluded_def tmf_is_string_def tmf_key_def value_strip_def)
  next
    case (JInt n)
    with Cons.IH show ?thesis
      by (simp add: first_stop_def excluded_def tmf_is_string_def tmf_key_def value_strip_def)
  qed
qed

lemma strip_Nil: "strip [] = []"
  by (simp add: strip_def)

lemma check_duplicate_alt:
  "check_duplicate_tmf_vault_id tmf_vault_id exclude_id st =
     (if list_all is_space tmf_vault_id then Inr (False, [])
      else duplicate_scan (upper (strip tmf_vault_id)) exclude_id (trail_documents_json st))"
proof (cases "tmf_vault_id = []")
  case True
  then show ?thesis by (simp add: check_duplicate_tmf_vault_id_def)
next
  case False
  then show ?thesis by (simp add: check_duplicate_tmf_vault_id_def strip_blank)
qed

lemma stop_result:
  "(case value_strip (dict_get_default doc ''tmf_vault_id'' (JStr '''')) of
      Inl e \<Rightarrow> Inl e
    | Inr v \<Rightarrow> Inr (True, duplicate_info doc)) =
   (if tmf_is_string doc
    then Inr (True,
           [(''id'', dict_get doc ''id''),
            (''trail'', dict_get_default doc ''trail'' (JStr ''Unknown'')),
            (''document_name'', dict_get_default doc ''document_name'' (JStr ''Unknown'')),
            (''created_by'', dict_get_default doc ''created_by'' (JStr ''Unknown'')),
            (''created_at'', dict_get_default doc ''created_at'' (JStr ''N/A'')),
            (''category'', dict_get_default doc ''category'' (JStr ''Unknown'')),
            (''uat_round'', dict_get_default doc ''uat_round'' (JStr ''N/A''))])
    else Inl ([CHR 0x27] @ type_name (dict_get_default doc ''tmf_vault_id'' (JStr ''''))
              @ [CHR 0x27] @ '' object has no attribute '' @ [CHR 0x27] @ ''strip'' @ [CHR 0x27]))"
  by (cases "dict_get_default doc ''tmf_vault_id'' (JStr '''')")
    (simp_all add: value_strip_def tmf_is_string_def duplicate_info_def)

lemma first_stop_typed:
  assumes "list_all tmf_is_string documents"
  shows "first_stop target exclude_id documents
    = find (\<lambda>doc. \<not> excluded exclude_id doc \<and> tmf_key doc = target) documents"
  unfolding first_stop_def
proof (rule find_cong [OF refl])
  fix doc assume "doc \<in> set documents"
  with assms have "tmf_is_string doc" by (simp add: list_all_iff)
  then show "(\<not> excluded exclude_id doc \<and> (\<not> tmf_is_string doc \<or> tmf_key doc = target))
     = (\<not> excluded exclude_id doc \<and> tmf_key doc = target)"
    by simp
qed

lemma others_differ:
  "e \<noteq> [] \<Longrightarrow> \<forall>x\<in>S. f x \<noteq> v \<longrightarrow> g x \<noteq> t \<Longrightarrow>
   \<not> (\<exists>x\<in>S. \<not> (e \<noteq> [] \<and> f x = v) \<and> g x = t)"
  by blast

lemma find_None_no: "find P xs = None \<Longrightarrow> \<not> (\<exists>x\<in>set xs. P x)"
  by (simp add: find_None_iff)

lemma find_Some_in: "find P xs = Some x \<Longrightarrow> x \<in> set xs \<and> P x"
  by (auto simp: find_Some_iff)

text \<open>
  C4. A blank or whitespace-only id is never a duplicate, and whitespace around the
  submitted id does not change the answer. For every collection and every other id, the
  check stops at the first document, not excluded by a non-empty \<open>exclude_id\<close>, whose
  \<open>tmf_vault_id\<close> is not a string or equals the submitted id after trimming and raising
  to upper case: with no such document the answer is ``no duplicate''; at an equal id the
  answer is ``duplicate'' with that document's \<open>id\<close>, \<open>trail\<close>, \<open>document_name\<close>,
  \<open>created_by\<close>, \<open>created_at\<close>, \<open>category\<close> and \<open>uat_round\<close> (the missing ones replaced
  by \<open>Unknown\<close> or \<open>N/A\<close>); at an id that is not a string \<open>strip\<close> raises. When every stored
  document has a string (or no) \<open>tmf_vault_id\<close>, the answer is ``duplicate'' exactly when
  the submitted id is not blank and some document that is not excluded has the same id
  after trimming and raising to upper case, and the document reported is the first such
  one. So a document that is excluded by its own id does not collide with itself: when
  no document with another \<open>id\<close> has the submitted id, the answer is ``no duplicate''.
\<close>

theorem check_duplicate_tmf_vault_id_exact:
  "(list_all is_space tmf_vault_id \<longrightarrow>
      check_duplicate_tmf_vault_id tmf_vault_id exclude_id st = Inr (False, []))
   \<and> (list_all is_space a \<and> list_all is_space b \<longrightarrow>
        check_duplicate_tmf_vault_id (a @ tmf_vault_id @ b) exclude_id st
          = check_duplicate_tmf_vault_id tmf_vault_id exclude_id st)
   \<and> (\<not> list_all is_space tmf_vault_id \<longrightarrow>
        check_duplicate_tmf_vault_id tmf_vault_id exclude_id st =
          (case first_stop (upper (strip tmf_vault_id)) exclude_id (trail_documents_json st) of
             None \<Rightarrow> Inr (False, [])
           | Some doc \<Rightarrow>
               if tmf_is_string doc
               then Inr (True,
                      [(''id'', dict_get doc ''id''),
                       (''trail'', dict_get_default doc ''trail'' (JStr ''Unknown'')),
                       (''document_name'', dict_get_default doc ''document_name'' (JStr ''Unknown'')),
                       (''created_by'', dict_get_default doc ''created_by'' (JStr ''Unknown'')),
                       (''created_at'', dict_get_default doc ''created_at'' (JStr ''N/A'')),
                       (''category'', dict_get_default doc ''category'' (JStr ''Unknown'')),
                       (''uat_round'', dict_get_default doc ''uat_round'' (JStr ''N/A''))])
               else Inl ([CHR 0x27] @ type_name (dict_get_default doc ''tmf_vault_id'' (JStr ''''))
                         @ [CHR 0x27] @ '' object has no attribute '' @ [CHR 0x27] @ ''strip''
                         @ [CHR 0x27])))
   \<and> (list_all tmf_is_string (trail_documents_json st) \<longrightarrow>
        (\<not> list_all is_space tmf_vault_id
           \<and> (\<exists>doc \<in> set (trail_documents_json st).
                 \<not> excluded exclude_id doc \<and> tmf_key doc = upper (strip tmf_vault_id))
         \<longrightarrow> (\<exists>info. check_duplicate_tmf_vault_id tmf_vault_id exclude_id st = Inr (True, info)))
        \<and> (\<not> (\<not> list_all is_space tmf_vault_id
               \<and> (\<exists>doc \<in> set (trail_documents_json st).
                     \<not> excluded exclude_id doc \<and> tmf_key doc = upper (strip tmf_vault_id)))
           \<longrightarrow> check_duplicate_tmf_vault_id tmf_vault_id exclude_id st = Inr (False, []))
        \<and> first_stop (upper (strip tmf_vault_id)) exclude_id (trail_documents_json st)
            = find (\<lambda>doc. \<not> excluded exclude_id doc \<and> tmf_key doc = upper (strip tmf_vault_id))
                (trail_documents_json st))
   \<and> (list_all tmf_is_string (trail_documents_json st) \<and> own_id \<noteq> []
        \<and> (\<forall>doc \<in> set (trail_documents_json st).
              dict_get doc ''id'' \<noteq> JStr own_id \<longrightarrow> tmf_key doc \<noteq> upper (strip tmf_vault_id))
      \<longrightarrow> check_duplicate_tmf_vault_id tmf_vault_id (Some own_id) st = Inr (False, []))"
proof -
  let ?docs = "trail_documents_json st"
  let ?target = "upper (strip tmf_vault_id)"
  let ?P = "\<lambda>e doc. \<not> excluded e doc \<and> tmf_key doc = ?target"
  have general: "\<And>e. \<not> list_all is_space tmf_vault_id \<Longrightarrow>
      check_duplicate_tmf_vault_id tmf_vault_id e st =
        (case first_stop ?target e ?docs of
           None \<Rightarrow> Inr (False, [])
         | Some doc \<Rightarrow>
             if tmf_is_string doc
             then Inr (True,
                    [(''id'', dict_get doc ''id''),
                     (''trail'', dict_get_default doc ''trail'' (JStr ''Unknown'')),
                     (''document_name'', dict_get_default doc ''document_name'' (JStr ''Unknown'')),
                     (''created_by'', dict_get_default doc ''created_by'' (JStr ''Unknown'')),
                     (''created_at'', dict_get_default doc ''created_at'' (JStr ''N/A'')),
                     (''category'', dict_get_default doc ''category'' (JStr ''Unknown'')),
                     (''uat_round'', dict_get_default doc ''uat_round'' (JStr ''N/A''))])
             else Inl ([CHR 0x27] @ type_name (dict_get_default doc ''tmf_vault_id'' (JStr ''''))
                       @ [CHR 0x27] @ '' object has no attribute '' @ [CHR 0x27] @ ''strip''
                       @ [CHR 0x27]))"
    by (simp only: check_duplicate_alt duplicate_scan_stop stop_result if_False)
  have blank: "\<And>e. list_all is_space tmf_vault_id \<Longrightarrow>
      check_duplicate_tmf_vault_id tmf_vault_id e st = Inr (False, [])"
    by (simp only: check_duplicate_alt if_True)
  have c1: "list_all is_space tmf_vault_id \<longrightarrow>
      check_duplicate_tmf_vault_id tmf_vault_id exclude_id st = Inr (False, [])"
    using blank by (rule impI)
  have c2: "list_all is_space a \<and> list_all is_space b \<longrightarrow>
        check_duplicate_tmf_vault_id (a @ tmf_vault_id @ b) exclude_id st
          = check_duplicate_tmf_vault_id tmf_vault_id exclude_id st"
  proof
    assume ab: "list_all is_space a \<and> list_all is_space b"
    then have s: "strip (a @ tmf_vault_id @ b) = strip tmf_vault_id"
      by (simp only: strip_surround)
    have "list_all is_space (a @ tmf_vault_id @ b) = list_all is_space tmf_vault_id"
      by (simp only: strip_blank [symmetric] s)
    with s show "check_duplicate_tmf_vault_id (a @ tmf_vault_id @ b) exclude_id st
          = check_duplicate_tmf_vault_id tmf_vault_id exclude_id st"
      by (simp only: check_duplicate_alt)
  qed
  have c3: "\<not> list_all is_space tmf_vault_id \<longrightarrow>
        check_duplicate_tmf_vault_id tmf_vault_id exclude_id st =
          (case first_stop ?target exclude_id ?docs of
             None \<Rightarrow> Inr (False, [])
           | Some doc \<Rightarrow>
               if tmf_is_string doc
               then Inr (True,
                      [(''id'', dict_get doc ''id''),
                       (''trail'', dict_get_default doc ''trail'' (JStr ''Unknown'')),
                       (''document_name'', dict_get_default doc ''document_name'' (JStr ''Unknown'')),
                       (''created_by'', dict_get_default doc ''created_by'' (JStr ''Unknown'')),
                       (''created_at'', dict_get_default doc ''created_at'' (JStr ''N/A'')),
                       (''category'', dict_get_default doc ''category'' (JStr ''Unknown'')),
                       (''uat_round'', dict_get_default doc ''uat_round'' (JStr ''N/A''))])
               else Inl ([CHR 0x27] @ type_name (dict_get_default doc ''tmf_vault_id'' (JStr ''''))
                         @ [CHR 0x27] @ '' object has no attribute '' @ [CHR 0x27] @ ''strip''
                         @ [CHR 0x27]))"
    using general by (rule impI)
  have no: "\<And>e. list_all tmf_is_string ?docs \<Longrightarrow>
      \<not> (\<not> list_all is_space tmf_vault_id \<and> (\<exists>doc \<in> set ?docs. ?P e doc)) \<Longrightarrow>
      check_duplicate_tmf_vault_id tmf_vault_id e st = Inr (False, [])"
  proof -
    fix e
    assume typed: "list_all tmf_is_string ?docs"
      and n: "\<not> (\<not> list_all is_space tmf_vault_id \<and> (\<exists>doc \<in> set ?docs. ?P e doc))"
    show "check_duplicate_tmf_vault_id tmf_vault_id e st = Inr (False, [])"
    proof (cases "list_all is_space tmf_vault_id")
      case True
      then show ?thesis by (rule blank)
    next
      case False
      with n have "\<not> (\<exists>doc \<in> set ?docs. ?P e doc)" by simp
      then have "find (?P e) ?docs = None" by (simp add: find_None_iff)
      then have "first_stop ?target e ?docs = None"
        by (simp only: first_stop_typed [OF typed])
      then show ?thesis
        by (simp only: general [OF False] option.case)
    qed
  qed
  have c4: "list_all tmf_is_string ?docs \<longrightarrow>
        (\<not> list_all is_space tmf_vault_id \<and> (\<exists>doc \<in> set ?docs. ?P exclude_id doc)
         \<longrightarrow> (\<exists>info. check_duplicate_tmf_vault_id tmf_vault_id exclude_id st = Inr (True, info)))
        \<and> (\<not> (\<not> list_all is_space tmf_vault_id \<and> (\<exists>doc \<in> set ?docs. ?P exclude_id doc))
           \<longrightarrow> check_duplicate_tmf_vault_id tmf_vault_id exclude_id st = Inr (False, []))
        \<and> first_stop ?target exclude_id ?docs = find (?P exclude_id) ?docs"
  proof (intro impI conjI)
    assume typed: "list_all tmf_is_string ?docs"
    show "first_stop ?target exclude_id ?docs = find (?P exclude_id) ?docs"
      by (rule first_stop_typed [OF typed])
  next
    assume typed: "list_all tmf_is_string ?docs"
      and "\<not> (\<not> list_all is_space tmf_vault_id \<and> (\<exists>doc \<in> set ?docs. ?P exclude_id doc))"
    then show "check_duplicate_tmf_vault_id tmf_vault_id exclude_id st = Inr (False, [])"
      by (rule no)
  next
    assume typed: "list_all tmf_is_string ?docs"
      and y: "\<not> list_all is_space tmf_vault_id \<and> (\<exists>doc \<in> set ?docs. ?P exclude_id doc)"
    then have nb: "\<not> list_all is_space tmf_vault_id" by (rule_tac conjunct1)
    from y have "\<exists>doc \<in> set ?docs. ?P exclude_id doc" by (rule_tac conjunct2)
    then have "find (?P exclude_id) ?docs \<noteq> None"
      by (rule contrapos_pn) (rule find_None_no)
    then have "\<exists>doc. find (?P exclude_id) ?docs = Some doc"
      by (rule not_None_eq [THEN iffD1])
    then obtain doc where f: "find (?P exclude_id) ?docs = Some doc" by (elim exE)
    then have "doc \<in> set ?docs" by (rule find_Some_in [THEN conjunct1])
    with typed have str: "tmf_is_string doc" by (simp add: list_all_iff)
    from f have "first_stop ?target exclude_id ?docs = Some doc"
      by (simp only: first_stop_typed [OF typed])
    with str show "\<exists>info. check_duplicate_tmf_vault_id tmf_vault_id exclude_id st = Inr (True, info)"
      by (simp only: general [OF nb] option.case if_True) (rule exI, rule refl)
  qed
  have c5: "list_all tmf_is_string ?docs \<and> own_id \<noteq> []
        \<and> (\<forall>doc \<in> set ?docs. dict_get doc ''id'' \<noteq> JStr own_id \<longrightarrow> tmf_key doc \<noteq> ?target)
      \<longrightarrow> check_duplicate_tmf_vault_id tmf_vault_id (Some own_id) st = Inr (False, [])"
  proof
    assume h: "list_all tmf_is_string ?docs \<and> own_id \<noteq> []
        \<and> (\<forall>doc \<in> set ?docs. dict_get doc ''id'' \<noteq> JStr own_id \<longrightarrow> tmf_key doc \<noteq> ?target)"
    then have typed: "list_all tmf_is_string ?docs" by (rule_tac conjunct1)
    note h [THEN conjunct2, THEN conjunct1] h [THEN conjunct2, THEN conjunct2]
    then have "\<not> (\<exists>doc \<in> set ?docs. \<not> (own_id \<noteq> [] \<and> dict_get doc ''id'' = JStr own_id)
        \<and> tmf_key doc = ?target)"
      by (rule others_differ)
    then have "\<not> (\<exists>doc \<in> set ?docs. ?P (Some own_id) doc)"
      unfolding excluded_def option.case .
    then have "\<not> (\<not> list_all is_space tmf_vault_id \<and> (\<exists>doc \<in> set ?docs. ?P (Some own_id) doc))"
      by (rule_tac notI) (erule conjE, erule notE, assumption)
    with typed show "check_duplicate_tmf_vault_id tmf_vault_id (Some own_id) st = Inr (False, [])"
      by (rule no)
  qed
  show ?thesis
    by (intro conjI c1 c2 c3 c4 c5)
qed

theorem check_duplicate_tmf_vault_id_exact_witness:
  "check_duplicate_tmf_vault_id ''abc-123'' None trail_example
     = Inr (True, [(''id'', JStr ''d1''), (''trail'', JStr ''T-100''),
                   (''document_name'', JStr ''Test Plan''), (''created_by'', JStr ''Unknown''),
                   (''created_at'', JStr ''N/A''), (''category'', JStr ''Unknown''),
                   (''uat_round'', JStr ''N/A'')])
   \<and> check_duplicate_tmf_vault_id ([CHR 0x09, CHR 0x20] @ ''abc-123'' @ [CHR 0xA0, CHR 0x0A]) None
         trail_example
       = check_duplicate_tmf_vault_id ''abc-123'' None trail_example
   \<and> check_duplicate_tmf_vault_id ''XYZ-9'' None trail_example
       = Inr (True, [(''id'', JStr ''d2''), (''trail'', JStr ''T-200''),
                     (''document_name'', JStr ''Unknown''), (''created_by'', JStr ''Unknown''),
                     (''created_at'', JStr ''N/A''), (''category'', JStr ''Unknown''),
                     (''uat_round'', JStr ''N/A'')])
   \<and> check_duplicate_tmf_vault_id [CHR ''c'', CHR ''a'', CHR ''f'', CHR 0xE9, CHR ''-'', CHR ''1'']
         None trail_example
       = Inr (True, [(''id'', JStr ''d3''), (''trail'', JStr ''T-300''),
                     (''document_name'', JStr ''Unknown''), (''created_by'', JStr ''Unknown''),
                     (''created_at'', JStr ''N/A''), (''category'', JStr ''Build''),
                     (''uat_round'', JStr ''N/A'')])
   \<and> check_duplicate_tmf_vault_id ''ABC-123'' (Some ''d1'') trail_example = Inr (False, [])
   \<and> (\<exists>info. check_duplicate_tmf_vault_id ''ABC-123'' (Some ''d2'') trail_example = Inr (True, info))
   \<and> check_duplicate_tmf_vault_id ''ABC-124'' None trail_example = Inr (False, [])
   \<and> check_duplicate_tmf_vault_id [CHR 0x20, CHR 0xA0, CHR 0x09] None trail_example = Inr (False, [])
   \<and> check_duplicate_tmf_vault_id ''abc-123'' None trail_null_example
       = Inl ([CHR 0x27] @ ''NoneType'' @ [CHR 0x27] @ '' object has no attribute ''
              @ [CHR 0x27] @ ''strip'' @ [CHR 0x27])"
proof -
  note defs = trail_example_def trail_null_example_def trail_doc1_def first_stop_def
    tmf_is_string_def tmf_key_def excluded_def dict_get_default_def dict_get_def strip_def
    is_space_def upper_def upper_code_def
  note t = check_duplicate_tmf_vault_id_exact
  have typed: "list_all tmf_is_string (trail_documents_json trail_example)"
    by (simp add: defs)
  have n1: "\<not> list_all is_space ''abc-123''"
    by (simp add: is_space_def)
  have "check_duplicate_tmf_vault_id ''abc-123'' None trail_example =
      (case first_stop (upper (strip ''abc-123'')) None (trail_documents_json trail_example) of
         None \<Rightarrow> Inr (False, [])
       | Some doc \<Rightarrow>
           if tmf_is_string doc
           then Inr (True,
                  [(''id'', dict_get doc ''id''),
                   (''trail'', dict_get_default doc ''trail'' (JStr ''Unknown'')),
                   (''document_name'', dict_get_default doc ''document_name'' (JStr ''Unknown'')),
                   (''created_by'', dict_get_default doc ''created_by'' (JStr ''Unknown'')),
                   (''created_at'', dict_get_default doc ''created_at'' (JStr ''N/A'')),
                   (''category'', dict_get_default doc ''category'' (JStr ''Unknown'')),
                   (''uat_round'', dict_get_default doc ''uat_round'' (JStr ''N/A''))])
           else Inl ([CHR 0x27] @ type_name (dict_get_default doc ''tmf_vault_id'' (JStr ''''))
                     @ [CHR 0x27] @ '' object has no attribute '' @ [CHR 0x27] @ ''strip''
                     @ [CHR 0x27]))"
    by (rule t [where tmf_vault_id = "''abc-123''" and exclude_id = None and st = trail_example,
          THEN conjunct2, THEN conjunct2, THEN conjunct1, THEN mp, OF n1])
  also have "\<dots> = Inr (True, [(''id'', JStr ''d1''), (''trail'', JStr ''T-100''),
                   (''document_name'', JStr ''Test Plan''), (''created_by'', JStr ''Unknown''),
                   (''created_at'', JStr ''N/A''), (''category'', JStr ''Unknown''),
                   (''uat_round'', JStr ''N/A'')])"
    by (simp add: defs)
  finally have w1: "check_duplicate_tmf_vault_id ''abc-123'' None trail_example
     = Inr (True, [(''id'', JStr ''d1''), (''trail'', JStr ''T-100''),
                   (''document_name'', JStr ''Test Plan''), (''created_by'', JStr ''Unknown''),
                   (''created_at'', JStr ''N/A''), (''category'', JStr ''Unknown''),
                   (''uat_round'', JStr ''N/A'')])" .
  have sp: "list_all is_space [CHR 0x09, CHR 0x20] \<and> list_all is_space [CHR 0xA0, CHR 0x0A]"
    by (simp add: is_space_def)
  have w2: "check_duplicate_tmf_vault_id ([CHR 0x09, CHR 0x20] @ ''abc-123'' @ [CHR 0xA0, CHR 0x0A])
         None trail_example
       = check_duplicate_tmf_vault_id ''abc-123'' None trail_example"
    by (rule t [where tmf_vault_id = "''abc-123''" and exclude_id = None and st = trail_example
          and a = "[CHR 0x09, CHR 0x20]" and b = "[CHR 0xA0, CHR 0x0A]",
          THEN conjunct2, THEN conjunct1, THEN mp, OF sp])
  have n3: "\<not> list_all is_space ''XYZ-9''"
    by (simp add: is_space_def)
  have "check_duplicate_tmf_vault_id ''XYZ-9'' None trail_example =
      (case first_stop (upper (strip ''XYZ-9'')) None (trail_documents_json trail_example) of
         None \<Rightarrow> Inr (False, [])
       | Some doc \<Rightarrow>
           if tmf_is_string doc
           then Inr (True,
                  [(''id'', dict_get doc ''id''),
                   (''trail'', dict_get_default doc ''trail'' (JStr ''Unknown'')),
                   (''document_name'', dict_get_default doc ''document_name'' (JStr ''Unknown'')),
                   (''created_by'', dict_get_default doc ''created_by'' (JStr ''Unknown'')),
                   (''created_at'', dict_get_default doc ''created_at'' (JStr ''N/A'')),
                   (''category'', dict_get_default doc ''category'' (JStr ''Unknown'')),
                   (''uat_round'', dict_get_default doc ''uat_round'' (JStr ''N/A''))])
           else Inl ([CHR 0x27] @ type_name (dict_get_default doc ''tmf_vault_id'' (JStr ''''))
                     @ [CHR 0x27] @ '' object has no attribute '' @ [CHR 0x27] @ ''strip''
                     @ [CHR 0x27]))"
    by (rule t [where tmf_vault_id = "''XYZ-9''" and exclude_id = None and st = trail_example,
          THEN conjunct2, THEN conjunct2, THEN conjunct1, THEN mp, OF n3])
  also have "\<dots> = Inr (True, [(''id'', JStr ''d2''), (''trail'', JStr ''T-200''),
                     (''document_name'', JStr ''Unknown''), (''created_by'', JStr ''Unknown''),
                     (''created_at'', JStr ''N/A''), (''category'', JStr ''Unknown''),
                     (''uat_round'', JStr ''N/A'')])"
    by (simp add: defs)
  finally have w3: "check_duplicate_tmf_vault_id ''XYZ-9'' None trail_example
       = Inr (True, [(''id'', JStr ''d2''), (''trail'', JStr ''T-200''),
                     (''document_name'', JStr ''Unknown''), (''created_by'', JStr ''Unknown''),
                     (''created_at'', JStr ''N/A''), (''category'', JStr ''Unknown''),
                     (''uat_round'', JStr ''N/A'')])" .
  let ?cafe = "[CHR ''c'', CHR ''a'', CHR ''f'', CHR 0xE9, CHR ''-'', CHR ''1'']"
  have n4: "\<not> list_all is_space ?cafe"
    by (simp add: is_space_def)
  have "check_duplicate_tmf_vault_id ?cafe None trail_example =
      (case first_stop (upper (strip ?cafe)) None (trail_documents_json trail_example) of
         None \<Rightarrow> Inr (False, [])
       | Some doc \<Rightarrow>
           if tmf_is_string doc
           then Inr (True,
                  [(''id'', dict_get doc ''id''),
                   (''trail'', dict_get_default doc ''trail'' (JStr ''Unknown'')),
                   (''document_name'', dict_get_default doc ''document_name'' (JStr ''Unknown'')),
                   (''created_by'', dict_get_default doc ''created_by'' (JStr ''Unknown'')),
                   (''created_at'', dict_get_default doc ''created_at'' (JStr ''N/A'')),
                   (''category'', dict_get_default doc ''category'' (JStr ''Unknown'')),
                   (''uat_round'', dict_get_default doc ''uat_round'' (JStr ''N/A''))])
           else Inl ([CHR 0x27] @ type_name (dict_get_default doc ''tmf_vault_id'' (JStr ''''))
                     @ [CHR 0x27] @ '' object has no attribute '' @ [CHR 0x27] @ ''strip''
                     @ [CHR 0x27]))"
    by (rule t [where tmf_vault_id = ?cafe and exclude_id = None and st = trail_example,
          THEN conjunct2, THEN conjunct2, THEN conjunct1, THEN mp, OF n4])
  also have "\<dots> = Inr (True, [(''id'', JStr ''d3''), (''trail'', JStr ''T-300''),
                     (''document_name'', JStr ''Unknown''), (''created_by'', JStr ''Unknown''),
                     (''created_at'', JStr ''N/A''), (''category'', JStr ''Build''),
                     (''uat_round'', JStr ''N/A'')])"
    by (simp add: defs)
  finally have w4: "check_duplicate_tmf_vault_id ?cafe None trail_example
       = Inr (True, [(''id'', JStr ''d3''), (''trail'', JStr ''T-300''),
                     (''document_name'', JStr ''Unknown''), (''created_by'', JStr ''Unknown''),
                     (''created_at'', JStr ''N/A''), (''category'', JStr ''Build''),
                     (''uat_round'', JStr ''N/A'')])" .
  have h5: "list_all tmf_is_string (trail_documents_json trail_example) \<and> ''d1'' \<noteq> []
      \<and> (\<forall>doc \<in> set (trail_documents_json trail_example).
            dict_get doc ''id'' \<noteq> JStr ''d1'' \<longrightarrow> tmf_key doc \<noteq> upper (strip ''ABC-123''))"
    by (simp add: defs)
  have w5: "check_duplicate_tmf_vault_id ''ABC-123'' (Some ''d1'') trail_example = Inr (False, [])"
    by (rule t [where tmf_vault_id = "''ABC-123''" and st = trail_example and own_id = "''d1''",
          THEN conjunct2, THEN conjunct2, THEN conjunct2, THEN conjunct2, THEN mp, OF h5])
  have h6: "\<not> list_all is_space ''ABC-123''
      \<and> (\<exists>doc \<in> set (trail_documents_json trail_example).
            \<not> excluded (Some ''d2'') doc \<and> tmf_key doc = upper (strip ''ABC-123''))"
    by (simp add: defs)
  have w6: "\<exists>info. check_duplicate_tmf_vault_id ''ABC-123'' (Some ''d2'') trail_example
      = Inr (True, info)"
    by (rule t [where tmf_vault_id = "''ABC-123''" and exclude_id = "Some ''d2''"
          and st = trail_example,
          THEN conjunct2, THEN conjunct2, THEN conjunct2, THEN conjunct1, THEN mp, OF typed,
          THEN conjunct1, THEN mp, OF h6])
  have h7: "\<not> (\<not> list_all is_space ''ABC-124''
      \<and> (\<exists>doc \<in> set (trail_documents_json trail_example).
            \<not> excluded None doc \<and> tmf_key doc = upper (strip ''ABC-124'')))"
    by (simp add: defs)
  have w7: "check_duplicate_tmf_vault_id ''ABC-124'' None trail_example = Inr (False, [])"
    by (rule t [where tmf_vault_id = "''ABC-124''" and exclude_id = None and st = trail_example,
          THEN conjunct2, THEN conjunct2, THEN conjunct2, THEN conjunct1, THEN mp, OF typed,
          THEN conjunct2, THEN conjunct1, THEN mp, OF h7])
  have h8: "list_all is_space [CHR 0x20, CHR 0xA0, CHR 0x09]"
    by (simp add: is_space_def)
  have w8: "check_duplicate_tmf_vault_id [CHR 0x20, CHR 0xA0, CHR 0x09] None trail_example
      = Inr (False, [])"
    by (rule t [where tmf_vault_id = "[CHR 0x20, CHR 0xA0, CHR 0x09]" and exclude_id = None
          and st = trail_example, THEN conjunct1, THEN mp, OF h8])
  have "check_duplicate_tmf_vault_id ''abc-123'' None trail_null_example =
      (case first_stop (upper (strip ''abc-123'')) None (trail_documents_json trail_null_example) of
         None \<Rightarrow> Inr (False, [])
       | Some doc \<Rightarrow>
           if tmf_is_string doc
           then Inr (True,
                  [(''id'', dict_get doc ''id''),
                   (''trail'', dict_get_default doc ''trail'' (JStr ''Unknown'')),
                   (''document_name'', dict_get_default doc ''document_name'' (JStr ''Unknown'')),
                   (''created_by'', dict_get_default doc ''created_by'' (JStr ''Unknown'')),
                   (''created_at'', dict_get_default doc ''created_at'' (JStr ''N/A'')),
                   (''category'', dict_get_default doc ''category'' (JStr ''Unknown'')),
                   (''uat_round'', dict_get_default doc ''uat_round'' (JStr ''N/A''))])
           else Inl ([CHR 0x27] @ type_name (dict_get_default doc ''tmf_vault_id'' (JStr ''''))
                     @ [CHR 0x27] @ '' object has no attribute '' @ [CHR 0x27] @ ''strip''
                     @ [CHR 0x27]))"
    by (rule t [where tmf_vault_id = "''abc-123''" and exclude_id = None
          and st = trail_null_example,
          THEN conjunct2, THEN conjunct2, THEN conjunct1, THEN mp, OF n1])
  also have "\<dots> = Inl ([CHR 0x27] @ ''NoneType'' @ [CHR 0x27] @ '' object has no attribute ''
              @ [CHR 0x27] @ ''strip'' @ [CHR 0x27])"
    by (simp add: defs)
  finally have w9: "check_duplicate_tmf_vault_id ''abc-123'' None trail_null_example
       = Inl ([CHR 0x27] @ ''NoneType'' @ [CHR 0x27] @ '' object has no attribute ''
              @ [CHR 0x27] @ ''strip'' @ [CHR 0x27])" .
  show ?thesis
    by (intro conjI w1 w2 w3 w4 w5 w6 w7 w8 w9)
qed

section \<open>The requirement round\<close>

lemma py_eq_str: "py_eq v (JStr s) = (v = JStr s)"
  by (cases v) (simp_all add: py_eq_def)

lemma py_max_from_ints:
  "py_max_from (JInt m) (map JInt ns) = Inr (JInt (fold max ns m))"
  by (induction ns arbitrary: m) (simp_all add: py_gt_def max_def)

lemma round_value: "round_is_int r \<Longrightarrow> dict_get_default r ''requirement_round'' (JInt 0) = JInt (round_of r)"
  by (cases "dict_get_default r ''requirement_round'' (JInt 0)")
    (simp_all add: round_is_int_def round_of_def)

lemma rounds_map:
  "list_all round_is_int rs \<Longrightarrow>
   map (\<lambda>r. dict_get_default r ''requirement_round'' (JInt 0)) rs = map JInt (map round_of rs)"
  by (induction rs) (simp_all add: round_value)

lemma get_requirement_round_counted:
  "get_requirement_round (JStr trial) (JStr requirement) wizard_records st =
     (case map (\<lambda>r. dict_get_default r ''requirement_round'' (JInt 0))
             (counted_records trial requirement wizard_records st) of
        [] \<Rightarrow> Inr 1
      | m # rest \<Rightarrow> and_then (py_max_from m rest) py_add_one)"
  by (cases "wizard_records = []")
    (simp_all add: get_requirement_round_def counted_records_def load_records_def py_eq_str Let_def)

lemma next_round_of_ints:
  assumes "rs \<noteq> []" and "list_all round_is_int rs"
  shows "(case map (\<lambda>r. dict_get_default r ''requirement_round'' (JInt 0)) rs of
            [] \<Rightarrow> Inr 1
          | m # rest \<Rightarrow> and_then (py_max_from m rest) py_add_one)
         = Inr (Max (round_of ` set rs) + 1)"
proof -
  from assms(1) obtain r rest where rs: "rs = r # rest" by (cases rs) auto
  have "Max (round_of ` set rs) = Max (set (round_of r # map round_of rest))"
    by (simp add: rs)
  also have "\<dots> = fold max (map round_of rest) (round_of r)"
    by (rule Max.set_eq_fold)
  finally have m: "Max (round_of ` set rs) = fold max (map round_of rest) (round_of r)" .
  have e: "map (\<lambda>r. dict_get_default r ''requirement_round'' (JInt 0)) rs
      = JInt (round_of r) # map JInt (map round_of rest)"
    using rounds_map [OF assms(2)] by (simp add: rs)
  show ?thesis
    unfolding e m
    by (simp only: list.case py_max_from_ints and_then_def sum.case py_add_one_def
        num_val.simps option.case)
qed

text \<open>
  C7. For a trial id and a requirement type (strings), the records that count are the
  persisted ones with that trial id and that type, and the in-flight ones with that type.
  When there is none the calculator returns 1; when their rounds are integers (a missing
  round counting as 0) it returns one more than the greatest. A persisted or in-flight
  record of another type changes nothing.
\<close>

theorem get_requirement_round_next:
  "(counted_records trial requirement wizard_records st = [] \<longrightarrow>
      get_requirement_round (JStr trial) (JStr requirement) wizard_records st = Inr 1)
   \<and> (counted_records trial requirement wizard_records st \<noteq> []
        \<and> list_all round_is_int (counted_records trial requirement wizard_records st) \<longrightarrow>
      get_requirement_round (JStr trial) (JStr requirement) wizard_records st
        = Inr (Max (round_of ` set (counted_records trial requirement wizard_records st)) + 1))
   \<and> (dict_get r ''type_of_requirement'' \<noteq> JStr requirement \<longrightarrow>
      get_requirement_round (JStr trial) (JStr requirement) wizard_records
          (st\<lparr>quality_records_json := before @ r # after\<rparr>)
        = get_requirement_round (JStr trial) (JStr requirement) wizard_records
            (st\<lparr>quality_records_json := before @ after\<rparr>)
      \<and> get_requirement_round (JStr trial) (JStr requirement) (wizard_before @ r # wizard_after) st
        = get_requirement_round (JStr trial) (JStr requirement) (wizard_before @ wizard_after) st)"
proof -
  have a: "counted_records trial requirement wizard_records st = [] \<longrightarrow>
      get_requirement_round (JStr trial) (JStr requirement) wizard_records st = Inr 1"
    by (simp add: get_requirement_round_counted)
  have b: "counted_records trial requirement wizard_records st \<noteq> []
        \<and> list_all round_is_int (counted_records trial requirement wizard_records st) \<longrightarrow>
      get_requirement_round (JStr trial) (JStr requirement) wizard_records st
        = Inr (Max (round_of ` set (counted_records trial requirement wizard_records st)) + 1)"
    unfolding get_requirement_round_counted
    by (intro impI, elim conjE) (rule next_round_of_ints)
  have c: "dict_get r ''type_of_requirement'' \<noteq> JStr requirement \<longrightarrow>
      get_requirement_round (JStr trial) (JStr requirement) wizard_records
          (st\<lparr>quality_records_json := before @ r # after\<rparr>)
        = get_requirement_round (JStr trial) (JStr requirement) wizard_records
            (st\<lparr>quality_records_json := before @ after\<rparr>)
      \<and> get_requirement_round (JStr trial) (JStr requirement) (wizard_before @ r # wizard_after) st
        = get_requirement_round (JStr trial) (JStr requirement) (wizard_before @ wizard_after) st"
    by (simp add: get_requirement_round_counted counted_records_def)
  show ?thesis
    by (intro conjI a b c)
qed

theorem get_requirement_round_next_witness:
  "get_requirement_round (JStr ''T1'') (JStr ''Forms'') []
      (quality_example\<lparr>quality_records_json := []\<rparr>) = Inr 1
   \<and> get_requirement_round (JStr ''T1'') (JStr ''Forms'') [] quality_example = Inr 2
   \<and> get_requirement_round (JStr ''T1'') (JStr ''Forms'')
        [[(''type_of_requirement'', JStr ''Forms''), (''requirement_round'', JInt 2)]]
        quality_example = Inr 3"
proof -
  note defs = counted_records_def quality_example_def dict_get_def round_is_int_def
    round_of_def dict_get_default_def
  have e: "counted_records ''T1'' ''Forms'' [] (quality_example\<lparr>quality_records_json := []\<rparr>) = []"
    by (simp add: counted_records_def)
  have c1: "get_requirement_round (JStr ''T1'') (JStr ''Forms'') []
      (quality_example\<lparr>quality_records_json := []\<rparr>) = Inr 1"
    by (rule get_requirement_round_next [THEN conjunct1, THEN mp, OF e])
  have h2: "counted_records ''T1'' ''Forms'' [] quality_example \<noteq> []
      \<and> list_all round_is_int (counted_records ''T1'' ''Forms'' [] quality_example)"
    by (simp add: defs)
  have m2: "Max (round_of ` set (counted_records ''T1'' ''Forms'' [] quality_example)) + 1 = 2"
    by (simp add: defs)
  have c2: "get_requirement_round (JStr ''T1'') (JStr ''Forms'') [] quality_example = Inr 2"
    using get_requirement_round_next [THEN conjunct2, THEN conjunct1, THEN mp, OF h2]
    by (simp only: m2)
  let ?w = "[[(''type_of_requirement'', JStr ''Forms''), (''requirement_round'', JInt 2)]]"
  have h3: "counted_records ''T1'' ''Forms'' ?w quality_example \<noteq> []
      \<and> list_all round_is_int (counted_records ''T1'' ''Forms'' ?w quality_example)"
    by (simp add: defs)
  have m3: "Max (round_of ` set (counted_records ''T1'' ''Forms'' ?w quality_example)) + 1 = 3"
    by (simp add: defs)
  have c3: "get_requirement_round (JStr ''T1'') (JStr ''Forms'') ?w quality_example = Inr 3"
    using get_requirement_round_next [THEN conjunct2, THEN conjunct1, THEN mp, OF h3]
    by (simp only: m3)
  show ?thesis
    by (intro conjI c1 c2 c3)
qed

end
